theory Spec2Isabelle
  imports Complex_Main "HOL-Library.Multiset"
begin

section \<open>Python values\<close>

text \<open>
  A Python \<open>str\<close> is a sequence of Unicode code points, so a string is a list of
  code points here and \<open>length\<close> counts what Python's \<open>len\<close> counts. ASCII literals
  of the source are written \<open>ascii ''...''\<close>, the Chinese literals as their code points.

  A Python \<open>float\<close> is modelled as a real number: arithmetic and comparisons are exact, so
  a result that depends on the rounding of a double (an item exactly on a threshold) can
  differ. The one float operation of the source that can raise, \<open>x ** 2\<close>, is modelled
  with its \<open>OverflowError\<close>. The model has no infinity: \<open>float\<close> of a digit string beyond
  the range of a double (about 1.8e308) is \<open>inf\<close> in Python, so the results that
  depend on the durations are stated for durations below \<open>10 ^ 150\<close> minutes, or on
  concrete plans.

  The character classes below are exact on ASCII and on the CJK block U+4E00..U+9FFF the
  source names; any other code point is taken to be caseless and neither a letter nor a
  digit, which is right for the punctuation the source mentions, such as U+3002. Python's
  \<^verbatim>\<open>\w\<close>, \<^verbatim>\<open>\d\<close> and \<open>str.lower\<close> know the letters and digits of other scripts as well: texts
  that hold them are outside the model, and the concrete inputs below hold none.
\<close>

type_synonym ustr = "nat list"

definition ascii :: "string \<Rightarrow> ustr" where
  "ascii s = map of_char s"

datatype py_error = JSONDecodeError | AttributeError | KeyError | TypeError | ValueError
  | ZeroDivisionError | OverflowError | OutsideModel

definition bind_err :: "py_error + 'a \<Rightarrow> ('a \<Rightarrow> py_error + 'b) \<Rightarrow> py_error + 'b" where
  "bind_err m f = (case m of Inl e \<Rightarrow> Inl e | Inr x \<Rightarrow> f x)"

definition py_div :: "real \<Rightarrow> real \<Rightarrow> py_error + real" where
  "py_div a b = (if b = 0 then Inl ZeroDivisionError else Inr (a / b))"

definition py_sqrt :: "real \<Rightarrow> py_error + real" where
  "py_sqrt x = (if x < 0 then Inl ValueError else Inr (sqrt x))"

text \<open>
  \<open>x ** 2\<close> on a float raises \<open>OverflowError\<close> when the square is too large for a double,
  that is when it is at least \<open>2 ^ 1024 - 2 ^ 970\<close>, the least real that rounds to infinity
  (addition and multiplication do not raise: they return \<open>inf\<close>).
\<close>

definition overflow_bound :: real where
  "overflow_bound = 2 ^ 1024 - 2 ^ 970"

definition py_square :: "real \<Rightarrow> py_error + real" where
  "py_square x = (if overflow_bound \<le> x ^ 2 then Inl OverflowError else Inr (x ^ 2))"

subsection \<open>String methods\<close>

definition is_space :: "nat \<Rightarrow> bool" where
  "is_space c \<longleftrightarrow> (9 \<le> c \<and> c \<le> 13) \<or> (28 \<le> c \<and> c \<le> 32) \<or> c = 0x85 \<or> c = 0xA0
     \<or> c = 0x1680 \<or> (0x2000 \<le> c \<and> c \<le> 0x200A) \<or> c = 0x2028 \<or> c = 0x2029
     \<or> c = 0x202F \<or> c = 0x205F \<or> c = 0x3000"

definition is_digit :: "nat \<Rightarrow> bool" where
  "is_digit c \<longleftrightarrow> 48 \<le> c \<and> c \<le> 57"

definition is_word :: "nat \<Rightarrow> bool" where
  "is_word c \<longleftrightarrow> (48 \<le> c \<and> c \<le> 57) \<or> (65 \<le> c \<and> c \<le> 90) \<or> c = 95
     \<or> (97 \<le> c \<and> c \<le> 122) \<or> (0x4E00 \<le> c \<and> c \<le> 0x9FFF)"

definition lower_cp :: "nat \<Rightarrow> nat" where
  "lower_cp c = (if 65 \<le> c \<and> c \<le> 90 then c + 32 else c)"

definition lower :: "ustr \<Rightarrow> ustr" where
  "lower s = map lower_cp s"

definition strip :: "ustr \<Rightarrow> ustr" where
  "strip s = rev (dropWhile is_space (rev (dropWhile is_space s)))"

definition startswith :: "ustr \<Rightarrow> ustr \<Rightarrow> bool" where
  "startswith s p \<longleftrightarrow> take (length p) s = p"

definition endswith :: "ustr \<Rightarrow> ustr \<Rightarrow> bool" where
  "endswith s p \<longleftrightarrow> length p \<le> length s \<and> drop (length s - length p) s = p"

text \<open>\<open>p in s\<close> on strings: \<open>p\<close> occurs in \<open>s\<close> as a contiguous run.\<close>

fun py_in :: "ustr \<Rightarrow> ustr \<Rightarrow> bool" where
  "py_in p [] = (p = [])"
| "py_in p (c # cs) = (startswith (c # cs) p \<or> py_in p cs)"

text \<open>\<open>s.count(p)\<close>: the number of non-overlapping occurrences, scanning from the left.\<close>

function py_count :: "ustr \<Rightarrow> ustr \<Rightarrow> nat" where
  "py_count s p =
     (if p = [] then Suc (length s)
      else if s = [] then 0
      else if startswith s p then Suc (py_count (drop (length p) s) p)
      else py_count (tl s) p)"
  by pat_completeness auto
termination
  by (relation "measure (\<lambda>(s, p). length s)") auto

declare py_count.simps [simp del]

text \<open>\<open>s.split()\<close>: the maximal runs of non-whitespace, in order.\<close>

fun split_ws_acc :: "ustr \<Rightarrow> ustr \<Rightarrow> ustr list" where
  "split_ws_acc [] cur = (if cur = [] then [] else [cur])"
| "split_ws_acc (c # cs) cur =
     (if is_space c then (if cur = [] then split_ws_acc cs [] else cur # split_ws_acc cs [])
      else split_ws_acc cs (cur @ [c]))"

definition split_ws :: "ustr \<Rightarrow> ustr list" where
  "split_ws s = split_ws_acc s []"

text \<open>\<open>s.split(sep)\<close> for a separator of one character.\<close>

fun split_sep_acc :: "nat \<Rightarrow> ustr \<Rightarrow> ustr \<Rightarrow> ustr list" where
  "split_sep_acc sep [] cur = [cur]"
| "split_sep_acc sep (c # cs) cur =
     (if c = sep then cur # split_sep_acc sep cs [] else split_sep_acc sep cs (cur @ [c]))"

definition split_sep :: "ustr \<Rightarrow> nat \<Rightarrow> ustr list" where
  "split_sep s sep = split_sep_acc sep s []"

text \<open>\<open>sep.join(xs)\<close>.\<close>

fun join :: "ustr \<Rightarrow> ustr list \<Rightarrow> ustr" where
  "join sep [] = []"
| "join sep [x] = x"
| "join sep (x # y # ys) = x @ sep @ join sep (y # ys)"

definition slice :: "ustr \<Rightarrow> nat \<Rightarrow> nat \<Rightarrow> ustr" where
  "slice s i j = take (j - i) (drop i s)"

subsection \<open>Regular expressions\<close>

text \<open>
  The patterns of the source are terms of \<open>re\<close>, matched the way Python's \<open>re\<close> module
  matches: \<open>ends r s i\<close> lists the positions where a match of \<open>r\<close> starting at \<open>i\<close>
  can end, in the order a backtracking matcher tries them (a greedy repetition tries the
  longest first, an alternation its left branch first), so the head of the list is the
  match Python reports. No pattern of the source matches the empty string, so a scan
  always resumes at the end of the last match.
\<close>

datatype cls = Range nat nat | Word | Digit | Space

fun in_cls :: "cls \<Rightarrow> nat \<Rightarrow> bool" where
  "in_cls (Range lo hi) c = (lo \<le> c \<and> c \<le> hi)"
| "in_cls Word c = is_word c"
| "in_cls Digit c = is_digit c"
| "in_cls Space c = is_space c"

datatype re = Eps | Chars "cls list" | Bnd | Seq re re | Alt re re | Rep re nat "nat option"

definition at_boundary :: "ustr \<Rightarrow> nat \<Rightarrow> bool" where
  "at_boundary s i \<longleftrightarrow>
     (0 < i \<and> i \<le> length s \<and> is_word (s ! (i - 1))) \<noteq> (i < length s \<and> is_word (s ! i))"

function rep_ends :: "(nat \<Rightarrow> nat list) \<Rightarrow> nat \<Rightarrow> nat \<Rightarrow> nat option \<Rightarrow> nat \<Rightarrow> nat list"
  and rep_all :: "(nat \<Rightarrow> nat list) \<Rightarrow> nat \<Rightarrow> nat \<Rightarrow> nat option \<Rightarrow> nat \<Rightarrow> nat list \<Rightarrow> nat list"
where
  "rep_ends step len mn mx i =
     (if mx = Some 0 then []
      else rep_all step len (mn - 1) (map_option (\<lambda>m. m - 1) mx) i (step i))
     @ (if mn = 0 then [i] else [])"
| "rep_all step len mn mx i [] = []"
| "rep_all step len mn mx i (j # js) =
     (if i < j \<and> j \<le> len then rep_ends step len mn mx j else [])
     @ rep_all step len mn mx i js"
  by pat_completeness auto
termination
  by (relation "measures [
        (\<lambda>x. case x of Inl (step, len, mn, mx, i) \<Rightarrow> len - i
                      | Inr (step, len, mn, mx, i, js) \<Rightarrow> len - i),
        (\<lambda>x. case x of Inl _ \<Rightarrow> 1 | Inr _ \<Rightarrow> 0),
        (\<lambda>x. case x of Inl _ \<Rightarrow> 0 | Inr (step, len, mn, mx, i, js) \<Rightarrow> length js)]") auto

declare rep_ends.simps [simp del]

primrec ends :: "re \<Rightarrow> ustr \<Rightarrow> nat \<Rightarrow> nat list" where
  "ends Eps s i = [i]"
| "ends (Chars cs) s i = (if i < length s \<and> list_ex (\<lambda>k. in_cls k (s ! i)) cs then [Suc i] else [])"
| "ends Bnd s i = (if at_boundary s i then [i] else [])"
| "ends (Seq a b) s i = concat (map (ends b s) (ends a s i))"
| "ends (Alt a b) s i = ends a s i @ ends b s i"
| "ends (Rep a mn mx) s i = rep_ends (ends a s) (length s) mn mx i"

text \<open>The successive matches of a left-to-right scan, as \<open>re.finditer\<close> yields them.\<close>

function scan :: "re \<Rightarrow> ustr \<Rightarrow> nat \<Rightarrow> (nat \<times> nat) list" where
  "scan r s i =
     (if length s < i then []
      else (case ends r s i of
              [] \<Rightarrow> scan r s (Suc i)
            | j # _ \<Rightarrow> (i, j) # scan r s (if i < j then j else Suc i)))"
  by pat_completeness auto
termination
  by (relation "measure (\<lambda>(r, s, i). Suc (length s) - i)") auto

declare scan.simps [simp del]

definition findall :: "re \<Rightarrow> ustr \<Rightarrow> ustr list" where
  "findall r s = map (\<lambda>(i, j). slice s i j) (scan r s 0)"

definition search :: "re \<Rightarrow> ustr \<Rightarrow> (nat \<times> nat) option" where
  "search r s = (case scan r s 0 of [] \<Rightarrow> None | m # _ \<Rightarrow> Some m)"

fun pieces :: "ustr \<Rightarrow> nat \<Rightarrow> (nat \<times> nat) list \<Rightarrow> ustr list" where
  "pieces s k [] = [drop k s]"
| "pieces s k ((i, j) # ms) = slice s k i # pieces s j ms"

definition re_split :: "re \<Rightarrow> ustr \<Rightarrow> ustr list" where
  "re_split r s = pieces s 0 (scan r s 0)"

definition cat :: "re list \<Rightarrow> re" where
  "cat rs = foldr Seq rs Eps"

definition plus :: "re \<Rightarrow> re" where
  "plus r = Rep r 1 None"

definition star :: "re \<Rightarrow> re" where
  "star r = Rep r 0 None"

definition opt :: "re \<Rightarrow> re" where
  "opt r = Rep r 0 (Some 1)"

definition chr :: "nat \<Rightarrow> re" where
  "chr c = Chars [Range c c]"

definition lower_az :: re where
  "lower_az = Chars [Range 97 122]"

definition upper_AZ :: re where
  "upper_AZ = Chars [Range 65 90]"

definition cjk :: re where
  "cjk = Chars [Range 0x4E00 0x9FFF]"

text \<open>\<open>float(t)\<close> for a text \<open>t\<close> of digits, an optional point and digits.\<close>

definition digits_val :: "ustr \<Rightarrow> nat" where
  "digits_val ds = foldl (\<lambda>a c. 10 * a + (c - 48)) 0 ds"

definition py_float :: "ustr \<Rightarrow> real" where
  "py_float t =
     (let ip = takeWhile is_digit t; fp = drop (Suc (length ip)) t
      in real (digits_val ip) + real (digits_val fp) / 10 ^ length fp)"

section \<open>Duration parsing\<close>

text \<open>The pattern \<^verbatim>\<open>(\d+\.?\d*)\<close> of \<open>_parse_duration\<close>.\<close>

definition number_re :: re where
  "number_re = cat [plus (Chars [Digit]), opt (chr 46), star (Chars [Digit])]"

definition parse_duration :: "ustr \<Rightarrow> real" where
  "parse_duration duration_str =
     (if duration_str = [] then 0
      else let d = strip (lower duration_str) in
        (case search number_re d of
           None \<Rightarrow> 0
         | Some (i, j) \<Rightarrow>
             let number = py_float (slice d i j) in
             if py_in (ascii ''second'') d \<or> endswith d (ascii ''s'') then number / 60
             else if py_in (ascii ''hour'') d \<or> endswith d (ascii ''h'') then number * 60
             else number))"


section \<open>The evaluator's data\<close>

text \<open>
  \<open>json.loads\<close> yields a value of \<open>json\<close>; a JSON object is read as a dictionary.
\<close>

datatype json = JNull | JBool bool | JInt int | JFloat real | JStr ustr
  | JArr "json list" | JObj "(ustr \<times> json) list"

definition dict_get :: "(ustr \<times> json) list \<Rightarrow> ustr \<Rightarrow> json \<Rightarrow> json" where
  "dict_get d k dflt = (case map_of d k of None \<Rightarrow> dflt | Some v \<Rightarrow> v)"

record raw_evaluator =
  raw_slides :: ustr
  raw_plan :: json
  raw_script :: json

definition fence_json :: ustr where
  "fence_json = ascii ''```json''"

definition fence :: ustr where
  "fence = ascii ''```''"

definition strip_fence :: "ustr \<Rightarrow> ustr" where
  "strip_fence speech_json_str =
     (let s1 = strip speech_json_str;
          s2 = (if startswith s1 fence_json then drop 7 s1 else s1);
          s3 = (if startswith s2 fence then drop 3 s2 else s2);
          s4 = (if endswith s3 fence then take (length s3 - 3) s3 else s3)
      in strip s4)"

text \<open>
  \<open>SpeechEvaluator.__init__\<close>. The parser \<open>json_loads\<close> is the library's
  \<open>json.loads\<close>: \<open>None\<close> when it raises \<open>JSONDecodeError\<close>. Only a dictionary has
  the method \<open>get\<close>.
\<close>

definition SpeechEvaluator_init ::
  "(ustr \<Rightarrow> json option) \<Rightarrow> ustr \<Rightarrow> ustr \<Rightarrow> py_error + raw_evaluator" where
  "SpeechEvaluator_init json_loads slides_text speech_json_str =
     (case json_loads (strip_fence speech_json_str) of
        None \<Rightarrow> Inl JSONDecodeError
      | Some (JObj speech_data) \<Rightarrow>
          Inr \<lparr>raw_slides = slides_text,
               raw_plan = dict_get speech_data (ascii ''plan'') (JArr []),
               raw_script = dict_get speech_data (ascii ''script'') (JArr [])\<rparr>
      | Some _ \<Rightarrow> Inl AttributeError)"

text \<open>
  The scoring functions read the plan and the script as lists of dictionaries with an
  integer \<open>slide\<close> and string \<open>title\<close>, \<open>duration\<close>, \<open>content\<close> and \<open>text\<close>. A field
  is \<open>None\<close> when the dictionary lacks the key. Values of any other shape are outside
  this model.
\<close>

record plan_item =
  p_slide :: "int option"
  p_title :: "ustr option"
  p_duration :: "ustr option"
  p_content :: "ustr option"

record script_item =
  s_slide :: "int option"
  s_text :: "ustr option"

record evaluator =
  slides_content :: ustr
  plan :: "plan_item list"
  script :: "script_item list"

definition get_int :: "(ustr \<times> json) list \<Rightarrow> ustr \<Rightarrow> int option option" where
  "get_int d k =
     (case map_of d k of None \<Rightarrow> Some None | Some (JInt n) \<Rightarrow> Some (Some n) | Some _ \<Rightarrow> None)"

definition get_str :: "(ustr \<times> json) list \<Rightarrow> ustr \<Rightarrow> ustr option option" where
  "get_str d k =
     (case map_of d k of None \<Rightarrow> Some None | Some (JStr s) \<Rightarrow> Some (Some s) | Some _ \<Rightarrow> None)"

definition plan_item_of :: "json \<Rightarrow> plan_item option" where
  "plan_item_of v =
     (case v of
        JObj d \<Rightarrow>
          (case (get_int d (ascii ''slide''), get_str d (ascii ''title''),
                 get_str d (ascii ''duration''), get_str d (ascii ''content'')) of
             (Some sl, Some ti, Some du, Some co) \<Rightarrow>
               Some \<lparr>p_slide = sl, p_title = ti, p_duration = du, p_content = co\<rparr>
           | _ \<Rightarrow> None)
      | _ \<Rightarrow> None)"

definition script_item_of :: "json \<Rightarrow> script_item option" where
  "script_item_of v =
     (case v of
        JObj d \<Rightarrow>
          (case (get_int d (ascii ''slide''), get_str d (ascii ''text'')) of
             (Some sl, Some tx) \<Rightarrow> Some \<lparr>s_slide = sl, s_text = tx\<rparr>
           | _ \<Rightarrow> None)
      | _ \<Rightarrow> None)"

definition typed :: "raw_evaluator \<Rightarrow> evaluator option" where
  "typed raw =
     (case (raw_plan raw, raw_script raw) of
        (JArr ps, JArr ss) \<Rightarrow>
          (case (those (map plan_item_of ps), those (map script_item_of ss)) of
             (Some pl, Some sc) \<Rightarrow>
               Some \<lparr>slides_content = raw_slides raw, plan = pl, script = sc\<rparr>
           | _ \<Rightarrow> None)
      | _ \<Rightarrow> None)"

text \<open>\<open>[s['text'] for s in self.script]\<close>: a missing key raises \<open>KeyError\<close>.\<close>

fun script_texts :: "script_item list \<Rightarrow> py_error + ustr list" where
  "script_texts [] = Inr []"
| "script_texts (s # ss) =
     (case s_text s of
        None \<Rightarrow> Inl KeyError
      | Some t \<Rightarrow> bind_err (script_texts ss) (\<lambda>ts. Inr (t # ts)))"

definition all_script_text :: "evaluator \<Rightarrow> py_error + ustr" where
  "all_script_text ev = bind_err (script_texts (script ev)) (\<lambda>ts. Inr (join (ascii '' '') ts))"


section \<open>Content consistency\<close>

definition stopwords :: "ustr list" where
  "stopwords = map ascii
     [''the'', ''a'', ''an'', ''and'', ''or'', ''but'', ''in'', ''on'', ''at'',
      ''to'', ''for'', ''of'', ''with'', ''by'', ''from'', ''is'', ''are'',
      ''was'', ''were'', ''be'', ''been'', ''have'', ''has'', ''had'',
      ''this'', ''that'', ''these'', ''those'', ''will'', ''would'']
     @ [[0x8fd9, 0x4e2a], [0x90a3, 0x4e2a], [0x53ef, 0x4ee5], [0x6211, 0x4eec],
        [0x4ed6, 0x4eec], [0x4ec0, 0x4e48], [0x600e, 0x4e48]]"

text \<open>\<^verbatim>\<open>\b[a-z]{4,}\b\<close> and \<^verbatim>\<open>[\u4e00-\u9fff]{2,4}\<close>.\<close>

definition english_word_re :: re where
  "english_word_re = cat [Bnd, Rep lower_az 4 None, Bnd]"

definition chinese_word_re :: re where
  "chinese_word_re = Rep cjk 2 (Some 4)"

text \<open>A \<open>Counter\<close> is a multiset of its keys.\<close>

definition extract_keywords :: "ustr \<Rightarrow> ustr multiset" where
  "extract_keywords text0 =
     (let text = lower text0;
          english_words = findall english_word_re text;
          chinese_words = findall chinese_word_re text;
          all_words = english_words @ chinese_words;
          keywords = filter (\<lambda>w. w \<notin> set stopwords) all_words
      in mset keywords)"

text \<open>
  \<^verbatim>\<open>\b[A-Z][a-z]+(?:\s+[A-Z][a-z]+)*\b\<close>, \<^verbatim>\<open>\b[a-z]+-[a-z]+(?:-[a-z]+)*\b\<close>,
  \<^verbatim>\<open>[\u4e00-\u9fff]{3,8}\<close> and \<^verbatim>\<open>\b[A-Z]{2,}\b\<close>.
\<close>

definition title_case_re :: re where
  "title_case_re =
     cat [Bnd, upper_AZ, plus lower_az,
          star (cat [plus (Chars [Space]), upper_AZ, plus lower_az]), Bnd]"

definition hyphenated_re :: re where
  "hyphenated_re =
     cat [Bnd, plus lower_az, chr 45, plus lower_az, star (cat [chr 45, plus lower_az]), Bnd]"

definition chinese_concept_re :: re where
  "chinese_concept_re = Rep cjk 3 (Some 8)"

definition abbreviation_re :: re where
  "abbreviation_re = cat [Bnd, Rep upper_AZ 2 None, Bnd]"

definition extract_key_concepts :: "ustr \<Rightarrow> ustr set" where
  "extract_key_concepts text =
     (let english_concepts = findall title_case_re text @ findall hyphenated_re text;
          chinese_concepts = findall chinese_concept_re text;
          abbreviations = findall abbreviation_re text;
          all_concepts = set (english_concepts @ chinese_concepts @ abbreviations)
      in Set.filter (\<lambda>c. 3 \<le> length c) all_concepts)"

text \<open>
  \<open>_calculate_coverage\<close> takes two \<open>Counter\<close>s or two sets and tells them apart with
  \<open>isinstance\<close>. A set and a \<open>Counter\<close> have no common \<open>&\<close>.
\<close>

datatype items = Counter "ustr multiset" | PySet "ustr set"

fun is_empty_items :: "items \<Rightarrow> bool" where
  "is_empty_items (Counter c) = (c = {#})"
| "is_empty_items (PySet s) = (s = {})"

fun keys_or_set :: "items \<Rightarrow> ustr set" where
  "keys_or_set (Counter c) = set_mset c"
| "keys_or_set (PySet s) = s"

definition calculate_coverage :: "items \<Rightarrow> items \<Rightarrow> py_error + real" where
  "calculate_coverage source_items target_items =
     (if is_empty_items source_items then Inr 1
      else (case source_items of
              Counter sc \<Rightarrow>
                (let source_keys = set_mset sc;
                     target_keys = keys_or_set target_items;
                     covered = card (source_keys \<inter> target_keys)
                 in py_div (real covered) (real (card source_keys)))
            | PySet ss \<Rightarrow>
                (case target_items of
                   Counter tc \<Rightarrow> Inl TypeError
                 | PySet ts \<Rightarrow> py_div (real (card (ss \<inter> ts))) (real (card ss)))))"

text \<open>\<^verbatim>\<open>\b\w+\b\<close>.\<close>

definition word_re :: re where
  "word_re = cat [Bnd, plus (Chars [Word]), Bnd]"

definition title_covered :: "ustr \<Rightarrow> ustr \<Rightarrow> bool" where
  "title_covered speech_text title =
     (let title_words = findall word_re (lower title);
          matches = length (filter (\<lambda>word. py_in word speech_text \<and> 3 < length word) title_words)
      in real (length title_words) / 2 \<le> real matches)"

definition check_slide_title_coverage :: "evaluator \<Rightarrow> py_error + real" where
  "check_slide_title_coverage ev =
     (let plan_titles =
            map (\<lambda>p. case p_title p of None \<Rightarrow> [] | Some t \<Rightarrow> t)
              (filter (\<lambda>p. case p_title p of None \<Rightarrow> False | Some t \<Rightarrow> t \<noteq> []) (plan ev))
      in if plan_titles = [] then Inr 1
         else bind_err (all_script_text ev) (\<lambda>joined.
           let speech_text = lower joined;
               covered = length (filter (title_covered speech_text) plan_titles)
           in py_div (real covered) (real (length plan_titles))))"

text \<open>
  \<^verbatim>\<open>\b\d{4}\b|\b\d+%\b|\b\d+\.\d+\b\<close> and \<^verbatim>\<open>\b[A-Z][a-z]+\s+[A-Z][a-z]+\b\<close>.
\<close>

definition number_fact_re :: re where
  "number_fact_re =
     Alt (cat [Bnd, Rep (Chars [Digit]) 4 (Some 4), Bnd])
       (Alt (cat [Bnd, plus (Chars [Digit]), chr 37, Bnd])
            (cat [Bnd, plus (Chars [Digit]), chr 46, plus (Chars [Digit]), Bnd]))"

definition name_re :: re where
  "name_re =
     cat [Bnd, upper_AZ, plus lower_az, plus (Chars [Space]), upper_AZ, plus lower_az, Bnd]"

definition check_fact_consistency :: "evaluator \<Rightarrow> py_error + real" where
  "check_fact_consistency ev =
     (let slides_numbers = findall number_fact_re (slides_content ev);
          slides_names = findall name_re (slides_content ev)
      in bind_err (all_script_text ev) (\<lambda>speech_text.
           let total_facts = length slides_numbers + length slides_names
           in if total_facts = 0 then Inr 1
              else
                let matched_facts =
                      length (filter (\<lambda>num. py_in num speech_text) slides_numbers)
                      + length (filter (\<lambda>name. py_in name speech_text) slides_names)
                in py_div (real matched_facts) (real total_facts)))"

definition detect_hallucination_risk :: "ustr multiset \<Rightarrow> ustr multiset \<Rightarrow> py_error + real" where
  "detect_hallucination_risk source_keywords target_keywords =
     (if target_keywords = {#} then Inr 0
      else
        let new_keywords = set_mset target_keywords - set_mset source_keywords
        in bind_err (py_div (real (card new_keywords)) (real (card (set_mset target_keywords))))
             (\<lambda>risk_ratio.
                if risk_ratio \<le> 0.3 then Inr (risk_ratio / 0.3 * 0.3)
                else Inr (0.3 + (risk_ratio - 0.3) / 0.7 * 0.7)))"

record content_scores =
  keyword_coverage :: real
  concept_coverage :: real
  slide_title_coverage :: real
  fact_accuracy :: real
  hallucination_risk_score :: real
  cc_overall_score :: real

definition evaluate_content_consistency :: "evaluator \<Rightarrow> py_error + content_scores" where
  "evaluate_content_consistency ev =
     (let slides_keywords = extract_keywords (slides_content ev);
          slides_concepts = extract_key_concepts (slides_content ev)
      in bind_err (all_script_text ev) (\<lambda>speech_text.
         let speech_keywords = extract_keywords speech_text;
             speech_concepts = extract_key_concepts speech_text
         in bind_err (calculate_coverage (Counter slides_keywords) (Counter speech_keywords))
              (\<lambda>kw_coverage.
            bind_err (calculate_coverage (PySet slides_concepts) (PySet speech_concepts))
              (\<lambda>con_coverage.
            bind_err (check_slide_title_coverage ev) (\<lambda>slide_coverage.
            bind_err (detect_hallucination_risk slides_keywords speech_keywords)
              (\<lambda>hallucination_risk.
            bind_err (check_fact_consistency ev) (\<lambda>fact_acc.
              Inr \<lparr>keyword_coverage = kw_coverage,
                   concept_coverage = con_coverage,
                   slide_title_coverage = slide_coverage,
                   fact_accuracy = fact_acc,
                   hallucination_risk_score = hallucination_risk,
                   cc_overall_score =
                     (kw_coverage + con_coverage + slide_coverage + fact_acc
                      + (1 - hallucination_risk)) / 5\<rparr>)))))))"

section \<open>Structure\<close>

text \<open>\<open>[p['slide'] for p in self.plan]\<close> and \<open>[s['slide'] for s in self.script]\<close>.\<close>

fun subscript_all :: "('a \<Rightarrow> 'b option) \<Rightarrow> 'a list \<Rightarrow> py_error + 'b list" where
  "subscript_all key [] = Inr []"
| "subscript_all key (x # xs) =
     (case key x of
        None \<Rightarrow> Inl KeyError
      | Some v \<Rightarrow> bind_err (subscript_all key xs) (\<lambda>vs. Inr (v # vs)))"

definition non_decreasing :: "int list \<Rightarrow> bool" where
  "non_decreasing xs = list_all (\<lambda>i. xs ! i \<le> xs ! (i + 1)) [0..<length xs - 1]"

definition evaluate_coherence :: "evaluator \<Rightarrow> py_error + real" where
  "evaluate_coherence ev =
     bind_err (subscript_all p_slide (plan ev)) (\<lambda>slide_numbers.
     bind_err (subscript_all s_slide (script ev)) (\<lambda>script_slides.
       let is_sequential = non_decreasing slide_numbers;
           script_sequential = non_decreasing script_slides;
           plan_slides = set slide_numbers;
           script_slide_set = set script_slides
       in bind_err
            (if plan_slides \<noteq> {}
             then py_div (real (card (plan_slides \<inter> script_slide_set))) (real (card plan_slides))
             else Inr 1)
            (\<lambda>coverage.
               Inr ((of_bool is_sequential + of_bool script_sequential + coverage) / 3))))"

text \<open>
  The loop shared by \<open>_evaluate_time_balance\<close>, \<open>_evaluate_time_distribution\<close> and
  \<open>_evaluate_pace\<close>: the parsed durations of the plan that are positive.
\<close>

definition duration_of :: "plan_item \<Rightarrow> real" where
  "duration_of p =
     parse_duration (case p_duration p of None \<Rightarrow> ascii ''0 minute'' | Some d \<Rightarrow> d)"

definition timed_durations :: "evaluator \<Rightarrow> real list" where
  "timed_durations ev = filter (\<lambda>d. 0 < d) (map duration_of (plan ev))"

text \<open>\<open>(x - mean) ** 2 for x in durations\<close>: the first square that overflows raises.\<close>

fun squared_deviations :: "real \<Rightarrow> real list \<Rightarrow> py_error + real list" where
  "squared_deviations mean [] = Inr []"
| "squared_deviations mean (x # xs) =
     bind_err (py_square (x - mean)) (\<lambda>sq.
     bind_err (squared_deviations mean xs) (\<lambda>sqs. Inr (sq # sqs)))"

definition evaluate_time_balance :: "evaluator \<Rightarrow> py_error + real" where
  "evaluate_time_balance ev =
     (let durations = timed_durations ev
      in if durations = [] \<or> length durations < 3 then Inr 1
         else bind_err (py_div (sum_list durations) (real (length durations))) (\<lambda>mean.
           if mean = 0 then Inr 0
           else bind_err (squared_deviations mean durations) (\<lambda>squares.
                bind_err (py_div (sum_list squares) (real (length durations))) (\<lambda>variance.
                bind_err (py_sqrt variance) (\<lambda>std_dev.
                bind_err (py_div std_dev mean) (\<lambda>cv.
                  let balance_score = max 0 (1 - cv)
                  in Inr (min balance_score 1)))))))"

definition transition_phrases :: "ustr list" where
  "transition_phrases = map ascii
     [''let's'', ''next'', ''now'', ''moving'', ''turn to'', ''consider'',
      ''however'', ''therefore'', ''furthermore'', ''additionally'',
      ''in conclusion'', ''to summarize'', ''brings us to'']
     @ [[0x63a5, 0x4e0b, 0x6765], [0x73b0, 0x5728], [0x7136, 0x540e], [0x56e0, 0x6b64],
        [0x6b64, 0x5916], [0x603b, 0x4e4b],
        [0x8ba9, 0x6211, 0x4eec], [0x4e0b, 0x9762], [0x9996, 0x5148], [0x5176, 0x6b21],
        [0x6700, 0x540e]]"

definition first_sentence_of :: "ustr \<Rightarrow> ustr" where
  "first_sentence_of text = (if py_in (ascii ''.'') text then hd (split_sep text 46) else text)"

definition has_transition :: "ustr \<Rightarrow> bool" where
  "has_transition text0 =
     (let text = lower text0;
          first_sentence = first_sentence_of text
      in list_ex (\<lambda>phrase. py_in phrase (lower first_sentence)) transition_phrases)"

text \<open>The loop of \<open>_evaluate_transitions\<close> over \<open>enumerate(self.script)\<close>.\<close>

fun count_transitions :: "(nat \<times> script_item) list \<Rightarrow> nat \<Rightarrow> py_error + nat" where
  "count_transitions [] transition_count = Inr transition_count"
| "count_transitions ((i, item) # rest) transition_count =
     (if i = 0 then count_transitions rest transition_count
      else (case s_text item of
              None \<Rightarrow> Inl KeyError
            | Some t \<Rightarrow>
                count_transitions rest
                  (if has_transition t then Suc transition_count else transition_count)))"

definition evaluate_transitions :: "evaluator \<Rightarrow> py_error + real" where
  "evaluate_transitions ev =
     bind_err (count_transitions (enumerate 0 (script ev)) 0) (\<lambda>transition_count.
       let ideal_transitions = int (length (script ev)) - 1
       in if 0 < ideal_transitions
          then py_div (real transition_count) (real_of_int ideal_transitions)
          else Inr 1)"

definition title_lower :: "plan_item \<Rightarrow> ustr" where
  "title_lower p = lower (case p_title p of None \<Rightarrow> [] | Some t \<Rightarrow> t)"

definition has_intro :: "evaluator \<Rightarrow> bool" where
  "has_intro ev =
     list_ex (\<lambda>(i, p). py_in (ascii ''introduction'') (title_lower p)
                       \<or> py_in (ascii ''intro'') (title_lower p)
                       \<or> i = 0)
       (enumerate 0 (plan ev))"

definition has_conclusion :: "evaluator \<Rightarrow> bool" where
  "has_conclusion ev =
     list_ex (\<lambda>(i, p). py_in (ascii ''conclusion'') (title_lower p)
                       \<or> py_in (ascii ''summary'') (title_lower p)
                       \<or> py_in (ascii ''q&a'') (title_lower p)
                       \<or> int i = int (length (plan ev)) - 1)
       (enumerate 0 (plan ev))"

definition has_body :: "evaluator \<Rightarrow> bool" where
  "has_body ev = (3 \<le> length (plan ev))"

definition evaluate_organization :: "evaluator \<Rightarrow> py_error + real" where
  "evaluate_organization ev =
     Inr ((of_bool (has_intro ev) + of_bool (has_conclusion ev) + of_bool (has_body ev)) / 3)"

record structure_scores =
  coherence_score :: real
  time_balance_score :: real
  transition_score :: real
  organization_score :: real
  st_overall_score :: real

definition evaluate_structure :: "evaluator \<Rightarrow> py_error + structure_scores" where
  "evaluate_structure ev =
     bind_err (evaluate_coherence ev) (\<lambda>coherence.
     bind_err (evaluate_time_balance ev) (\<lambda>time_balance.
     bind_err (evaluate_transitions ev) (\<lambda>transition.
     bind_err (evaluate_organization ev) (\<lambda>organization.
       Inr \<lparr>coherence_score = coherence,
            time_balance_score = time_balance,
            transition_score = transition,
            organization_score = organization,
            st_overall_score = (coherence + time_balance + transition + organization) / 4\<rparr>))))"


section \<open>Language quality\<close>

text \<open>
  \<^verbatim>\<open>[.!?\u3002!?]+\<close>, the sentence separators of \<open>_evaluate_clarity\<close> (the source
  has the ideographic full stop U+3002 itself, and lists \<open>!\<close> and \<open>?\<close> twice).
\<close>

definition sentence_end_re :: re where
  "sentence_end_re =
     plus (Chars [Range 46 46, Range 33 33, Range 63 63, Range 0x3002 0x3002,
                  Range 33 33, Range 63 63])"

definition evaluate_clarity :: "evaluator \<Rightarrow> py_error + real" where
  "evaluate_clarity ev =
     bind_err (all_script_text ev) (\<lambda>all_text.
       let sentences = filter (\<lambda>s. s \<noteq> []) (map strip (re_split sentence_end_re all_text))
       in if sentences = [] then Inr 0
          else bind_err (py_div (real (sum_list (map (\<lambda>s. length (split_ws s)) sentences)))
                           (real (length sentences))) (\<lambda>avg_length.
                 if 12 \<le> avg_length \<and> avg_length \<le> 25 then Inr 1
                 else if avg_length < 12 then Inr (0.7 + (avg_length / 12) * 0.3)
                 else Inr (max 0.3 (1 - (avg_length - 25) / 25))))"

definition conversational_markers :: "ustr list" where
  "conversational_markers = map ascii
     [''let's'', ''we'll'', ''i'm'', ''you'll'', ''we're'', ''i'll'',
      ''today'', ''now'', ''here'', ''our'', ''my'', ''your'',
      ''everyone'', ''thank you'', ''hello'', ''hi'']
     @ [[0x5927, 0x5bb6], [0x6211, 0x4eec], [0x4eca, 0x5929], [0x73b0, 0x5728],
        [0x8ba9, 0x6211, 0x4eec],
        [0x4f60, 0x4eec], [0x54b1, 0x4eec], [0x8fd9, 0x91cc], [0x90a3, 0x4e48]]"

definition evaluate_conversational_style :: "evaluator \<Rightarrow> py_error + real" where
  "evaluate_conversational_style ev =
     bind_err (all_script_text ev) (\<lambda>joined.
       let all_text = lower joined;
           words = split_ws all_text;
           marker_count =
             length (filter (\<lambda>word. list_ex (\<lambda>marker. py_in marker word) conversational_markers)
                       words)
       in bind_err
            (if words \<noteq> []
             then bind_err (py_div (real marker_count) (real (length words)))
                    (\<lambda>q. Inr (q * 100))
             else Inr 0)
            (\<lambda>ratio.
               if 2 \<le> ratio \<and> ratio \<le> 6 then Inr 1
               else if ratio < 2 then Inr (ratio / 2)
               else Inr (max 0.5 (1 - (ratio - 6) / 10))))"

text \<open>\<^verbatim>\<open>\b[a-z]+\b\<close> and \<^verbatim>\<open>[\u4e00-\u9fff]+\<close>.\<close>

definition ascii_word_re :: re where
  "ascii_word_re = cat [Bnd, plus lower_az, Bnd]"

definition chinese_run_re :: re where
  "chinese_run_re = plus cjk"

definition evaluate_vocabulary :: "evaluator \<Rightarrow> py_error + real" where
  "evaluate_vocabulary ev =
     bind_err (all_script_text ev) (\<lambda>joined.
       let all_text = lower joined;
           words = findall ascii_word_re all_text;
           chinese_words = findall chinese_run_re all_text;
           all_words = words @ chinese_words
       in if all_words = [] then Inr 0
          else
            let unique_words = card (set all_words);
                total_words = length all_words
            in bind_err (py_div (real unique_words) (real total_words)) (\<lambda>ttr.
                 if 0.35 \<le> ttr \<and> ttr \<le> 0.65 then Inr 1
                 else if ttr < 0.35 then Inr (ttr / 0.35)
                 else Inr (max 0.6 (1 - (ttr - 0.65) / 0.35))))"

definition technical_terms :: "ustr list" where
  "technical_terms = map ascii
     [''llm'', ''large language model'', ''fact-checking'', ''hallucination'',
      ''argumentation'', ''evidence'', ''verification'', ''benchmark'',
      ''algorithm'', ''dataset'', ''evaluation'', ''accuracy'']"

definition evaluate_professionalism :: "evaluator \<Rightarrow> py_error + real" where
  "evaluate_professionalism ev =
     bind_err (all_script_text ev) (\<lambda>all_text.
       let term_usage = length (filter (\<lambda>term. py_in term (lower all_text)) technical_terms)
       in bind_err (py_div (real (length technical_terms)) 2) (\<lambda>half.
          bind_err (py_div (real term_usage) half) (\<lambda>q. Inr (min q 1))))"

record language_scores =
  clarity_score :: real
  conversational_score :: real
  vocabulary_richness :: real
  professionalism_score :: real
  lq_overall_score :: real

definition evaluate_language_quality :: "evaluator \<Rightarrow> py_error + language_scores" where
  "evaluate_language_quality ev =
     bind_err (evaluate_clarity ev) (\<lambda>clarity.
     bind_err (evaluate_conversational_style ev) (\<lambda>conversational.
     bind_err (evaluate_vocabulary ev) (\<lambda>vocabulary.
     bind_err (evaluate_professionalism ev) (\<lambda>professionalism.
       Inr \<lparr>clarity_score = clarity,
            conversational_score = conversational,
            vocabulary_richness = vocabulary,
            professionalism_score = professionalism,
            lq_overall_score = (clarity + conversational + vocabulary + professionalism) / 4\<rparr>))))"

section \<open>Detail richness\<close>

definition calculate_expansion_ratio :: "evaluator \<Rightarrow> py_error + real" where
  "calculate_expansion_ratio ev =
     (let slides_words = length (split_ws (slides_content ev))
      in bind_err (all_script_text ev) (\<lambda>joined.
           let speech_words = length (split_ws joined)
           in if slides_words = 0 then Inr 0
              else bind_err (py_div (real speech_words) (real slides_words)) (\<lambda>ratio.
                     if 1.5 \<le> ratio \<and> ratio \<le> 3 then Inr 1
                     else if ratio < 1.5 then Inr (ratio / 1.5)
                     else Inr (max 0.5 (1 - (ratio - 3) / 3)))))"

definition example_indicators :: "ustr list" where
  "example_indicators = map ascii
     [''example'', ''for instance'', ''such as'', ''like'',
      ''consider'', ''let's take'', ''case'', ''illustrate'']
     @ [[0x4f8b, 0x5982], [0x6bd4, 0x5982], [0x4e3e, 0x4f8b], [0x6848, 0x4f8b],
        [0x8003, 0x8651]]"

definition check_example_usage :: "evaluator \<Rightarrow> py_error + real" where
  "check_example_usage ev =
     bind_err (all_script_text ev) (\<lambda>joined.
       let all_text = lower joined;
           example_count = sum_list (map (py_count all_text) example_indicators)
       in bind_err (py_div (real (length (script ev))) 4.5) (\<lambda>ideal_examples.
          bind_err (py_div (real example_count) (max ideal_examples 1)) (\<lambda>q.
            Inr (min q 1))))"

definition explanation_markers :: "ustr list" where
  "explanation_markers = map ascii
     [''this means'', ''in other words'', ''specifically'',
      ''that is'', ''namely'', ''essentially'', ''simply put'']
     @ [[0x4e5f, 0x5c31, 0x662f, 0x8bf4], [0x6362, 0x53e5, 0x8bdd, 0x8bf4],
        [0x5177, 0x4f53, 0x6765, 0x8bf4], [0x7b80, 0x5355, 0x6765, 0x8bf4]]"

definition evaluate_explanations :: "evaluator \<Rightarrow> py_error + real" where
  "evaluate_explanations ev =
     bind_err (all_script_text ev) (\<lambda>joined.
       let all_text = lower joined;
           explanation_count = sum_list (map (py_count all_text) explanation_markers)
       in bind_err (py_div (real (length (script ev))) 3) (\<lambda>ideal_explanations.
          bind_err (py_div (real explanation_count) (max ideal_explanations 1)) (\<lambda>q.
            Inr (min q 1))))"

definition context_keywords :: "ustr list" where
  "context_keywords = map ascii
     [''background'', ''motivation'', ''why'', ''important'', ''challenge'',
      ''problem'', ''goal'', ''objective'', ''significance'']
     @ [[0x80cc, 0x666f], [0x52a8, 0x673a], [0x4e3a, 0x4ec0, 0x4e48], [0x91cd, 0x8981],
        [0x6311, 0x6218], [0x95ee, 0x9898], [0x76ee, 0x6807], [0x610f, 0x4e49]]"

definition evaluate_context :: "evaluator \<Rightarrow> py_error + real" where
  "evaluate_context ev =
     bind_err (all_script_text ev) (\<lambda>joined.
       let all_text = lower joined;
           context_count = length (filter (\<lambda>keyword. py_in keyword all_text) context_keywords)
       in bind_err (py_div (real context_count) 4) (\<lambda>q. Inr (min q 1)))"

record detail_scores =
  expansion_ratio_score :: real
  example_usage_score :: real
  explanation_quality :: real
  context_provision :: real
  dr_overall_score :: real

definition evaluate_detail_richness :: "evaluator \<Rightarrow> py_error + detail_scores" where
  "evaluate_detail_richness ev =
     bind_err (calculate_expansion_ratio ev) (\<lambda>expansion_ratio.
     bind_err (check_example_usage ev) (\<lambda>example_usage.
     bind_err (evaluate_explanations ev) (\<lambda>explanation.
     bind_err (evaluate_context ev) (\<lambda>context_prov.
       Inr \<lparr>expansion_ratio_score = expansion_ratio,
            example_usage_score = example_usage,
            explanation_quality = explanation,
            context_provision = context_prov,
            dr_overall_score =
              (expansion_ratio + example_usage + explanation + context_prov) / 4\<rparr>))))"

section \<open>Time management\<close>

definition calculate_total_time :: "evaluator \<Rightarrow> real" where
  "calculate_total_time ev = foldl (\<lambda>total p. total + duration_of p) 0 (plan ev)"

definition evaluate_duration_appropriateness :: "evaluator \<Rightarrow> real \<Rightarrow> py_error + real" where
  "evaluate_duration_appropriateness ev total_minutes =
     (let num_slides = length (plan ev);
          ideal_min = real num_slides * 1;
          ideal_max = real num_slides * 2.5
      in if ideal_min \<le> total_minutes \<and> total_minutes \<le> ideal_max then Inr 1
         else if total_minutes < ideal_min then py_div total_minutes ideal_min
         else bind_err (py_div (total_minutes - ideal_max) ideal_max) (\<lambda>q.
                Inr (max 0.4 (1 - q))))"

definition evaluate_time_distribution :: "evaluator \<Rightarrow> py_error + real" where
  "evaluate_time_distribution ev =
     (let durations = timed_durations ev
      in if length durations < 3 then Inr 1
         else
           let intro_ok = (hd durations \<le> 2);
               outro_ok = (last durations \<le> 2);
               middle_durations = (if 2 < length durations then butlast (tl durations)
                                   else durations);
               middle_ok = list_all (\<lambda>d. 1 \<le> d) middle_durations
           in Inr ((of_bool intro_ok + of_bool outro_ok + of_bool middle_ok) / 3))"

definition is_extreme :: "real \<Rightarrow> real \<Rightarrow> bool" where
  "is_extreme mean d \<longleftrightarrow> mean * 2 < d \<or> d < mean * 0.5"

definition evaluate_pace :: "evaluator \<Rightarrow> py_error + real" where
  "evaluate_pace ev =
     (let durations = timed_durations ev
      in if durations = [] then Inr 1
         else bind_err (py_div (sum_list durations) (real (length durations))) (\<lambda>mean.
           let extreme_count = length (filter (is_extreme mean) durations)
           in bind_err (py_div (real extreme_count) (real (length durations))) (\<lambda>q.
                Inr (max 0 (1 - q)))))"

record time_scores =
  total_minutes :: real
  duration_appropriateness :: real
  time_distribution_score :: real
  pace_consistency :: real
  tm_overall_score :: real

definition evaluate_time_management :: "evaluator \<Rightarrow> py_error + time_scores" where
  "evaluate_time_management ev =
     (let total_time = calculate_total_time ev
      in bind_err (evaluate_duration_appropriateness ev total_time) (\<lambda>duration_appr.
         bind_err (evaluate_time_distribution ev) (\<lambda>time_distribution.
         bind_err (evaluate_pace ev) (\<lambda>pace.
           Inr \<lparr>total_minutes = total_time,
                duration_appropriateness = duration_appr,
                time_distribution_score = time_distribution,
                pace_consistency = pace,
                tm_overall_score = (duration_appr + time_distribution + pace) / 3\<rparr>))))"

section \<open>Overall evaluation\<close>

definition grade_A_plus :: ustr where "grade_A_plus = ascii ''A+ ('' @ [0x4f18, 0x79c0] @ ascii '')''"
definition grade_A :: ustr where "grade_A = ascii ''A ('' @ [0x4f18, 0x79c0] @ ascii '')''"
definition grade_B_plus :: ustr where "grade_B_plus = ascii ''B+ ('' @ [0x826f, 0x597d] @ ascii '')''"
definition grade_B :: ustr where "grade_B = ascii ''B ('' @ [0x826f, 0x597d] @ ascii '')''"
definition grade_C_plus :: ustr where "grade_C_plus = ascii ''C+ ('' @ [0x4e2d, 0x7b49] @ ascii '')''"
definition grade_C :: ustr where "grade_C = ascii ''C ('' @ [0x4e2d, 0x7b49] @ ascii '')''"
definition grade_D :: ustr where "grade_D = ascii ''D ('' @ [0x53ca, 0x683c] @ ascii '')''"
definition grade_F :: ustr where "grade_F = ascii ''F ('' @ [0x4e0d, 0x53ca, 0x683c] @ ascii '')''"

definition get_grade :: "real \<Rightarrow> ustr" where
  "get_grade score =
     (if 0.90 \<le> score then grade_A_plus
      else if 0.85 \<le> score then grade_A
      else if 0.80 \<le> score then grade_B_plus
      else if 0.75 \<le> score then grade_B
      else if 0.70 \<le> score then grade_C_plus
      else if 0.65 \<le> score then grade_C
      else if 0.60 \<le> score then grade_D
      else grade_F)"

definition weights :: "(ustr \<times> real) list" where
  "weights =
     [(ascii ''content_consistency'', 0.30),
      (ascii ''structure'', 0.25),
      (ascii ''language_quality'', 0.20),
      (ascii ''detail_richness'', 0.15),
      (ascii ''time_management'', 0.10)]"

record results =
  content_consistency :: content_scores
  structure_dim :: structure_scores
  language_quality :: language_scores
  detail_richness :: detail_scores
  time_management :: time_scores
  overall_score :: real
  grade :: ustr
  result_weights :: "(ustr \<times> real) list"

text \<open>
  \<open>sum(results[key]['overall_score'] * weights[key] for key in weights)\<close>, where
  \<open>scores\<close> holds \<open>results[key]['overall_score']\<close> for the keys of \<open>results\<close>.
\<close>

fun weighted_sum :: "(ustr \<times> real) list \<Rightarrow> (ustr \<times> real) list \<Rightarrow> py_error + real" where
  "weighted_sum scores [] = Inr 0"
| "weighted_sum scores ((key, w) # rest) =
     (case map_of scores key of
        None \<Rightarrow> Inl KeyError
      | Some v \<Rightarrow> bind_err (weighted_sum scores rest) (\<lambda>acc. Inr (v * w + acc)))"

definition evaluate_all :: "evaluator \<Rightarrow> py_error + results" where
  "evaluate_all ev =
     bind_err (evaluate_content_consistency ev) (\<lambda>cc.
     bind_err (evaluate_structure ev) (\<lambda>st.
     bind_err (evaluate_language_quality ev) (\<lambda>lq.
     bind_err (evaluate_detail_richness ev) (\<lambda>dr.
     bind_err (evaluate_time_management ev) (\<lambda>tm.
     bind_err (weighted_sum
                 [(ascii ''content_consistency'', cc_overall_score cc),
                  (ascii ''structure'', st_overall_score st),
                  (ascii ''language_quality'', lq_overall_score lq),
                  (ascii ''detail_richness'', dr_overall_score dr),
                  (ascii ''time_management'', tm_overall_score tm)]
                 weights) (\<lambda>overall.
       Inr \<lparr>content_consistency = cc,
            structure_dim = st,
            language_quality = lq,
            detail_richness = dr,
            time_management = tm,
            overall_score = overall,
            grade = get_grade overall,
            result_weights = weights\<rparr>))))))"

text \<open>
  Construction followed by \<open>evaluate_all\<close>. A payload whose plan or script is not a
  list of dictionaries of the shape above is outside the model.
\<close>

definition run :: "(ustr \<Rightarrow> json option) \<Rightarrow> ustr \<Rightarrow> ustr \<Rightarrow> py_error + results" where
  "run json_loads slides_text speech_json_str =
     bind_err (SpeechEvaluator_init json_loads slides_text speech_json_str) (\<lambda>raw.
       case typed raw of
         None \<Rightarrow> Inl OutsideModel
       | Some ev \<Rightarrow> evaluate_all ev)"

section \<open>Evaluation of concrete inputs\<close>

lemmas text_eval = ascii_def strip_def lower_def lower_cp_def startswith_def endswith_def
  slice_def is_digit_def is_space_def is_word_def at_boundary_def

lemmas re_eval = search_def findall_def re_split_def scan.simps rep_ends.simps cat_def
  plus_def opt_def star_def chr_def lower_az_def upper_AZ_def cjk_def

lemma bind_err_simps [simp]:
  "bind_err (Inr x) f = f x"
  "bind_err (Inl e) f = Inl e"
  by (simp_all add: bind_err_def)

section \<open>Duration parsing: the plural units\<close>

text \<open>
  C1. \<open>_parse_duration\<close> is documented to read \<open>"2 minutes"\<close> as two minutes, and C1
  has \<open>parseDuration("120 seconds") = parseDuration("2 minutes") = 2.0\<close>. The test
  \<open>duration_str.endswith('s')\<close> comes first and is met by every plural unit, so
  \<open>"2 minutes"\<close> is divided by 60: the code returns 2 for \<open>"120 seconds"\<close> and 1/30 for
  \<open>"2 minutes"\<close>.
\<close>

theorem parse_duration_plural_minutes:
  "parse_duration (ascii ''120 seconds'') = 2
   \<and> parse_duration (ascii ''2 minutes'') = 1 / 30
   \<and> parse_duration (ascii ''120 seconds'') \<noteq> parse_duration (ascii ''2 minutes'')"
  by (simp add: parse_duration_def number_re_def py_float_def digits_val_def text_eval re_eval
      Let_def)

section \<open>Organization\<close>

lemma has_intro_nonempty: "plan ev \<noteq> [] \<Longrightarrow> has_intro ev"
  by (cases "plan ev") (simp_all add: has_intro_def enumerate_eq_zip upt_rec)

lemma has_conclusion_nonempty:
  assumes ne: "plan ev \<noteq> []"
  shows "has_conclusion ev"
proof -
  let ?n = "length (plan ev)"
  have "(?n - 1, plan ev ! (?n - 1)) \<in> set (enumerate 0 (plan ev))"
    using ne by (simp add: in_set_enumerate_eq)
  moreover have "int (?n - 1) = int ?n - 1"
    using ne by (cases "plan ev") simp_all
  ultimately show ?thesis
    unfolding has_conclusion_def list_ex_iff
    by (intro bexI[of _ "(?n - 1, plan ev ! (?n - 1))"]) auto
qed

text \<open>
  C9. For every non-empty plan the introduction check and the conclusion check of
  \<open>_evaluate_organization\<close> hold by position alone (the first item has index 0, the last
  item has index \<open>len(plan) - 1\<close>), whatever the titles are, so the organization score is
  1 when the plan has at least three items and 2/3 otherwise.
\<close>

theorem organization_nonempty_plan:
  "plan ev \<noteq> [] \<Longrightarrow>
     has_intro ev \<and> has_conclusion ev
     \<and> evaluate_organization ev = Inr (if 3 \<le> length (plan ev) then 1 else 2 / 3)"
  by (simp add: has_intro_nonempty has_conclusion_nonempty evaluate_organization_def
      has_body_def)

theorem organization_nonempty_plan_witness:
  "plan \<lparr>slides_content = [],
         plan = [\<lparr>p_slide = Some 1, p_title = Some (ascii ''Results''),
                  p_duration = Some (ascii ''1 min''), p_content = Some []\<rparr>],
         script = []\<rparr> \<noteq> []
   \<and> evaluate_organization
       \<lparr>slides_content = [],
        plan = [\<lparr>p_slide = Some 1, p_title = Some (ascii ''Results''),
                 p_duration = Some (ascii ''1 min''), p_content = Some []\<rparr>],
        script = []\<rparr> = Inr (2 / 3)"
  using organization_nonempty_plan
    [of "\<lparr>slides_content = [],
          plan = [\<lparr>p_slide = Some 1, p_title = Some (ascii ''Results''),
                   p_duration = Some (ascii ''1 min''), p_content = Some []\<rparr>],
          script = []\<rparr>"]
  by simp

section \<open>Results in the unit interval\<close>

definition unit_interval :: "real \<Rightarrow> bool" where
  "unit_interval v \<longleftrightarrow> 0 \<le> v \<and> v \<le> 1"

definition returns_unit :: "py_error + real \<Rightarrow> bool" where
  "returns_unit m \<longleftrightarrow> (\<exists>v. m = Inr v \<and> unit_interval v)"

lemma returns_unitI: "m = Inr v \<Longrightarrow> 0 \<le> v \<Longrightarrow> v \<le> 1 \<Longrightarrow> returns_unit m"
  by (simp add: returns_unit_def unit_interval_def)

lemma returns_unitE:
  assumes "returns_unit m"
  obtains v where "m = Inr v" and "0 \<le> v" and "v \<le> 1"
  using assms by (auto simp: returns_unit_def unit_interval_def)

lemma py_div_ratio:
  assumes "0 \<le> a" and "a \<le> b" and "0 < b"
  shows "returns_unit (py_div a b)"
  using assms by (intro returns_unitI[of _ "a / b"]) (simp_all add: py_div_def)

lemma py_div_count:
  assumes "m \<le> n" and "0 < n"
  shows "returns_unit (py_div (real m) (real n))"
  using assms by (intro py_div_ratio) simp_all

subsection \<open>Reading the keys\<close>

lemma subscript_all_cases:
  "subscript_all key xs =
     (if list_all (\<lambda>x. key x \<noteq> None) xs then Inr (map (\<lambda>x. the (key x)) xs) else Inl KeyError)"
  by (induction xs) (auto split: option.splits)

lemma script_texts_cases:
  "script_texts ss =
     (if list_all (\<lambda>s. s_text s \<noteq> None) ss then Inr (map (\<lambda>s. the (s_text s)) ss)
      else Inl KeyError)"
  by (induction ss) (auto split: option.splits)

definition has_texts :: "evaluator \<Rightarrow> bool" where
  "has_texts ev \<longleftrightarrow> list_all (\<lambda>s. s_text s \<noteq> None) (script ev)"

definition has_slides :: "evaluator \<Rightarrow> bool" where
  "has_slides ev \<longleftrightarrow>
     list_all (\<lambda>p. p_slide p \<noteq> None) (plan ev) \<and> list_all (\<lambda>s. s_slide s \<noteq> None) (script ev)"

definition speech_text_of :: "evaluator \<Rightarrow> ustr" where
  "speech_text_of ev = join (ascii '' '') (map (\<lambda>s. the (s_text s)) (script ev))"

lemma all_script_text_cases:
  "all_script_text ev = (if has_texts ev then Inr (speech_text_of ev) else Inl KeyError)"
  by (simp add: all_script_text_def script_texts_cases has_texts_def speech_text_of_def)

subsection \<open>Content consistency\<close>

lemma coverage_counter_unit:
  "returns_unit (calculate_coverage (Counter sc) (Counter tc))"
proof (cases "sc = {#}")
  case True
  then show ?thesis
    by (intro returns_unitI[of _ 1]) (simp_all add: calculate_coverage_def)
next
  case False
  then have "0 < card (set_mset sc)"
    by (simp add: card_gt_0_iff)
  moreover have "card (set_mset sc \<inter> set_mset tc) \<le> card (set_mset sc)"
    by (intro card_mono) simp_all
  ultimately have "returns_unit (py_div (real (card (set_mset sc \<inter> set_mset tc)))
      (real (card (set_mset sc))))"
    by (rule py_div_count[rotated])
  with False show ?thesis
    by (simp add: calculate_coverage_def Let_def)
qed

lemma coverage_set_unit:
  assumes "finite ss"
  shows "returns_unit (calculate_coverage (PySet ss) (PySet ts))"
proof (cases "ss = {}")
  case True
  then show ?thesis
    by (intro returns_unitI[of _ 1]) (simp_all add: calculate_coverage_def)
next
  case False
  with assms have "0 < card ss"
    by (simp add: card_gt_0_iff)
  moreover have "card (ss \<inter> ts) \<le> card ss"
    using assms by (intro card_mono) simp_all
  ultimately have "returns_unit (py_div (real (card (ss \<inter> ts))) (real (card ss)))"
    by (rule py_div_count[rotated])
  with False show ?thesis
    by (simp add: calculate_coverage_def Let_def)
qed

lemma finite_key_concepts: "finite (extract_key_concepts t)"
  by (simp add: extract_key_concepts_def Let_def)

lemma title_coverage_unit:
  assumes "has_texts ev"
  shows "returns_unit (check_slide_title_coverage ev)"
proof -
  define titles where "titles =
    map (\<lambda>p. case p_title p of None \<Rightarrow> [] | Some t \<Rightarrow> t)
      (filter (\<lambda>p. case p_title p of None \<Rightarrow> False | Some t \<Rightarrow> t \<noteq> []) (plan ev))"
  show ?thesis
  proof (cases "titles = []")
    case True
    then show ?thesis
      unfolding check_slide_title_coverage_def titles_def[symmetric] Let_def
      by (intro returns_unitI[of _ 1]) simp_all
  next
    case False
    have "returns_unit (py_div
        (real (length (filter (title_covered (lower (speech_text_of ev))) titles)))
        (real (length titles)))"
      using False by (intro py_div_count) simp_all
    with False assms show ?thesis
      unfolding check_slide_title_coverage_def titles_def[symmetric] Let_def
      by (simp add: all_script_text_cases)
  qed
qed

lemma fact_consistency_unit:
  assumes "has_texts ev"
  shows "returns_unit (check_fact_consistency ev)"
proof -
  define ns where "ns = findall number_fact_re (slides_content ev)"
  define ms where "ms = findall name_re (slides_content ev)"
  define t where "t = speech_text_of ev"
  show ?thesis
  proof (cases "length ns + length ms = 0")
    case True
    with assms show ?thesis
      unfolding check_fact_consistency_def ns_def[symmetric] ms_def[symmetric] Let_def
      by (intro returns_unitI[of _ 1]) (simp_all add: all_script_text_cases)
  next
    case False
    have "length (filter (\<lambda>num. py_in num t) ns) + length (filter (\<lambda>name. py_in name t) ms)
        \<le> length ns + length ms"
      by (intro add_mono length_filter_le)
    then have "returns_unit (py_div
        (real (length (filter (\<lambda>num. py_in num t) ns)
               + length (filter (\<lambda>name. py_in name t) ms)))
        (real (length ns + length ms)))"
      using False by (intro py_div_count) simp_all
    with False assms show ?thesis
      unfolding check_fact_consistency_def ns_def[symmetric] ms_def[symmetric] Let_def
        t_def
      by (auto simp: all_script_text_cases)
  qed
qed

lemma remap_identity:
  fixes r :: real
  shows "(if r \<le> 0.3 then Inr (r / 0.3 * 0.3) else Inr (0.3 + (r - 0.3) / 0.7 * 0.7))
    = (Inr r :: py_error + real)"
proof -
  have "r / 0.3 * 0.3 = r"
    by simp
  moreover have "(r - 0.3) / 0.7 * 0.7 = r - 0.3"
    by simp
  ultimately show ?thesis
    by (simp only: if_cancel add_diff_cancel_left' add.commute[of "0.3" "r - 0.3"] diff_add_cancel)
qed

lemma hallucination_value:
  "detect_hallucination_risk sk tk =
     Inr (if tk = {#} then 0
          else real (card (set_mset tk - set_mset sk)) / real (card (set_mset tk)))"
proof (cases "tk = {#}")
  case True
  then show ?thesis
    by (simp add: detect_hallucination_risk_def)
next
  case False
  then have "card (set_mset tk) \<noteq> 0"
    by simp
  then have "py_div (real (card (set_mset tk - set_mset sk))) (real (card (set_mset tk)))
      = Inr (real (card (set_mset tk - set_mset sk)) / real (card (set_mset tk)))"
    by (simp add: py_div_def)
  with False show ?thesis
    unfolding detect_hallucination_risk_def Let_def
    by (simp only: if_False bind_err_simps remap_identity)
qed

lemma hallucination_unit: "returns_unit (detect_hallucination_risk sk tk)"
proof (cases "tk = {#}")
  case True
  then show ?thesis
    by (intro returns_unitI[of _ 0]) (simp_all add: hallucination_value)
next
  case False
  then have pos: "0 < card (set_mset tk)"
    by (simp add: card_gt_0_iff)
  have le: "card (set_mset tk - set_mset sk) \<le> card (set_mset tk)"
    by (intro card_mono) auto
  from False pos le show ?thesis
    by (intro returns_unitI[of _ "real (card (set_mset tk - set_mset sk)) / real (card (set_mset tk))"])
       (simp_all add: hallucination_value)
qed

definition content_unit :: "content_scores \<Rightarrow> bool" where
  "content_unit cc \<longleftrightarrow>
     list_all unit_interval
       [keyword_coverage cc, concept_coverage cc, slide_title_coverage cc, fact_accuracy cc,
        hallucination_risk_score cc]
     \<and> unit_interval (cc_overall_score cc)"

lemma content_consistency_KeyError:
  "\<not> has_texts ev \<Longrightarrow> evaluate_content_consistency ev = Inl KeyError"
  by (simp add: evaluate_content_consistency_def Let_def all_script_text_cases)

lemma content_consistency_ok:
  assumes "has_texts ev"
  shows "\<exists>cc. evaluate_content_consistency ev = Inr cc \<and> content_unit cc
    \<and> calculate_coverage (Counter (extract_keywords (slides_content ev)))
         (Counter (extract_keywords (speech_text_of ev))) = Inr (keyword_coverage cc)"
proof -
  obtain kw where kw: "calculate_coverage (Counter (extract_keywords (slides_content ev)))
      (Counter (extract_keywords (speech_text_of ev))) = Inr kw" "0 \<le> kw" "kw \<le> 1"
    using coverage_counter_unit by (rule returns_unitE)
  obtain con where con: "calculate_coverage (PySet (extract_key_concepts (slides_content ev)))
      (PySet (extract_key_concepts (speech_text_of ev))) = Inr con" "0 \<le> con" "con \<le> 1"
    using coverage_set_unit[OF finite_key_concepts] by (rule returns_unitE)
  obtain ti where ti: "check_slide_title_coverage ev = Inr ti" "0 \<le> ti" "ti \<le> 1"
    using title_coverage_unit[OF assms] by (rule returns_unitE)
  obtain ha where ha: "detect_hallucination_risk (extract_keywords (slides_content ev))
      (extract_keywords (speech_text_of ev)) = Inr ha" "0 \<le> ha" "ha \<le> 1"
    using hallucination_unit by (rule returns_unitE)
  obtain fa where fa: "check_fact_consistency ev = Inr fa" "0 \<le> fa" "fa \<le> 1"
    using fact_consistency_unit[OF assms] by (rule returns_unitE)
  have "evaluate_content_consistency ev =
      Inr \<lparr>keyword_coverage = kw, concept_coverage = con, slide_title_coverage = ti,
           fact_accuracy = fa, hallucination_risk_score = ha,
           cc_overall_score = (kw + con + ti + fa + (1 - ha)) / 5\<rparr>"
    using assms
    by (simp add: evaluate_content_consistency_def Let_def all_script_text_cases
        kw(1) con(1) ti(1) ha(1) fa(1))
  moreover have "0 \<le> (kw + con + ti + fa + (1 - ha)) / 5"
    and "(kw + con + ti + fa + (1 - ha)) / 5 \<le> 1"
    using kw con ti ha fa by simp_all
  ultimately show ?thesis
    using kw con ti ha fa by (simp add: content_unit_def unit_interval_def)
qed

subsection \<open>Structure\<close>

lemma coherence_KeyError: "\<not> has_slides ev \<Longrightarrow> evaluate_coherence ev = Inl KeyError"
  by (auto simp: evaluate_coherence_def subscript_all_cases has_slides_def)

lemma coherence_unit:
  assumes "has_slides ev"
  shows "returns_unit (evaluate_coherence ev)"
proof -
  define pl where "pl = map (\<lambda>x. the (p_slide x)) (plan ev)"
  define sl where "sl = map (\<lambda>x. the (s_slide x)) (script ev)"
  define b1 where "b1 = (of_bool (non_decreasing pl) :: real)"
  define b2 where "b2 = (of_bool (non_decreasing sl) :: real)"
  have ps: "subscript_all p_slide (plan ev) = Inr pl"
    and ss: "subscript_all s_slide (script ev) = Inr sl"
    using assms by (simp_all add: subscript_all_cases has_slides_def pl_def sl_def)
  have b: "0 \<le> b1" "b1 \<le> 1" "0 \<le> b2" "b2 \<le> 1"
    by (simp_all add: b1_def b2_def)
  have "returns_unit (if set pl \<noteq> {}
      then py_div (real (card (set pl \<inter> set sl))) (real (card (set pl))) else Inr 1)"
  proof (cases "set pl = {}")
    case True
    then show ?thesis
      by (intro returns_unitI[of _ 1]) simp_all
  next
    case False
    then have "0 < card (set pl)"
      by (simp add: card_gt_0_iff)
    moreover have "card (set pl \<inter> set sl) \<le> card (set pl)"
      by (intro card_mono) simp_all
    ultimately have "returns_unit (py_div (real (card (set pl \<inter> set sl)))
        (real (card (set pl))))"
      by (rule py_div_count[rotated])
    with False show ?thesis
      by (simp only: if_True not_False_eq_True)
  qed
  then obtain c where c:
    "(if set pl \<noteq> {} then py_div (real (card (set pl \<inter> set sl))) (real (card (set pl)))
      else Inr 1) = Inr c"
    "0 \<le> c" "c \<le> 1"
    by (rule returns_unitE)
  have "evaluate_coherence ev = Inr ((b1 + b2 + c) / 3)"
    by (simp only: evaluate_coherence_def ps ss bind_err_simps Let_def c(1) b1_def b2_def)
  then show ?thesis
    using b c by (intro returns_unitI[of _ "(b1 + b2 + c) / 3"]) simp_all
qed

lemma timed_durations_pos: "d \<in> set (timed_durations ev) \<Longrightarrow> 0 < d"
  by (simp add: timed_durations_def)

lemma sum_list_pos_real:
  fixes xs :: "real list"
  assumes "xs \<noteq> []" and "\<And>x. x \<in> set xs \<Longrightarrow> 0 < x"
  shows "0 < sum_list xs"
  using assms
proof (induction xs)
  case Nil
  then show ?case by simp
next
  case (Cons x xs)
  have "0 \<le> sum_list xs"
    using Cons.prems(2) by (intro sum_list_nonneg) (auto intro: less_imp_le)
  moreover have "0 < x"
    using Cons.prems(2) by simp
  ultimately show ?case
    by simp
qed

lemma squared_deviations_cases:
  "squared_deviations m xs =
     (if list_all (\<lambda>x. (x - m) ^ 2 < overflow_bound) xs
      then Inr (map (\<lambda>x. (x - m) ^ 2) xs) else Inl OverflowError)"
  by (induction xs) (auto simp: py_square_def)

text \<open>
  The inputs on which \<open>_evaluate_time_balance\<close> overflows: at least three timed
  durations, one of them too far from the mean for its square to be a double.
\<close>

definition balance_overflows :: "evaluator \<Rightarrow> bool" where
  "balance_overflows ev \<longleftrightarrow>
     3 \<le> length (timed_durations ev)
     \<and> \<not> list_all
           (\<lambda>x. (x - sum_list (timed_durations ev) / real (length (timed_durations ev))) ^ 2
                < overflow_bound)
           (timed_durations ev)"


lemma time_balance_overflow:
  assumes "balance_overflows ev"
  shows "evaluate_time_balance ev = Inl OverflowError"
proof -
  define ds where "ds = timed_durations ev"
  define mean where "mean = sum_list ds / real (length ds)"
  from assms have len: "3 \<le> length ds"
    and bad: "\<not> list_all (\<lambda>x. (x - mean) ^ 2 < overflow_bound) ds"
    by (simp_all add: balance_overflows_def ds_def mean_def)
  from len have ne: "ds \<noteq> []"
    by auto
  from len have nd: "\<not> (ds = [] \<or> length ds < 3)"
    by auto
  have "0 < sum_list ds"
    using ne by (intro sum_list_pos_real) (auto simp: ds_def dest: timed_durations_pos)
  with ne have mean: "mean \<noteq> 0"
    by (simp add: mean_def)
  have div: "py_div (sum_list ds) (real (length ds)) = Inr mean"
    using ne by (simp add: py_div_def mean_def)
  have sq: "squared_deviations mean ds = Inl OverflowError"
    using bad by (simp add: squared_deviations_cases)
  show ?thesis
    unfolding evaluate_time_balance_def ds_def[symmetric] Let_def
    using nd mean by (simp only: if_False div bind_err_simps sq)
qed

lemma time_balance_unit:
  assumes "\<not> balance_overflows ev"
  shows "returns_unit (evaluate_time_balance ev)"
proof -
  define ds where "ds = timed_durations ev"
  show ?thesis
  proof (cases "ds = [] \<or> length ds < 3")
    case True
    then show ?thesis
      unfolding evaluate_time_balance_def ds_def[symmetric] Let_def
      by (intro returns_unitI[of _ 1]) auto
  next
    case False
    define n where "n = real (length ds)"
    define mean where "mean = sum_list ds / n"
    define var where "var = sum_list (map (\<lambda>x. (x - mean) ^ 2) ds) / n"
    have n: "0 < n"
      using False by (simp add: n_def)
    have "0 < sum_list ds"
      using False by (intro sum_list_pos_real) (auto simp: ds_def dest: timed_durations_pos)
    with n have mean: "0 < mean"
      by (simp add: mean_def)
    have "0 \<le> sum_list (map (\<lambda>x. (x - mean) ^ 2) ds)"
      by (intro sum_list_nonneg) auto
    with n have var: "0 \<le> var"
      by (simp add: var_def)
    have cv: "0 \<le> sqrt var / mean"
      using var mean by simp
    from assms False have "list_all (\<lambda>x. (x - mean) ^ 2 < overflow_bound) ds"
      by (auto simp: balance_overflows_def ds_def mean_def n_def)
    then have sq: "squared_deviations mean ds = Inr (map (\<lambda>x. (x - mean) ^ 2) ds)"
      by (simp add: squared_deviations_cases)
    have div: "py_div (sum_list ds) (real (length ds)) = Inr mean"
      using n by (simp add: py_div_def mean_def n_def)
    have mean0: "mean \<noteq> 0"
      using mean by simp
    have vdiv: "py_div (sum_list (map (\<lambda>x. (x - mean) ^ 2) ds)) (real (length ds)) = Inr var"
      using n by (simp add: py_div_def var_def n_def)
    have root: "py_sqrt var = Inr (sqrt var)"
      using var by (simp add: py_sqrt_def)
    have cvd: "py_div (sqrt var) mean = Inr (sqrt var / mean)"
      using mean by (simp add: py_div_def)
    have "evaluate_time_balance ev = Inr (min (max 0 (1 - sqrt var / mean)) 1)"
      unfolding evaluate_time_balance_def ds_def[symmetric] Let_def
      using False mean0 by (simp only: if_False div bind_err_simps sq vdiv root cvd)
    then show ?thesis
      using cv by (intro returns_unitI[of _ "min (max 0 (1 - sqrt var / mean)) 1"]) simp_all
  qed
qed




lemma count_transitions_enumerate:
  assumes "0 < k" and "list_all (\<lambda>s. s_text s \<noteq> None) ss"
  shows "count_transitions (enumerate k ss) n =
    Inr (n + length (filter has_transition (map (\<lambda>s. the (s_text s)) ss)))"
  using assms
proof (induction ss arbitrary: k n)
  case Nil
  then show ?case by simp
next
  case (Cons s ss)
  from Cons.prems obtain t where t: "s_text s = Some t"
    by auto
  have "count_transitions (enumerate (Suc k) ss) m =
      Inr (m + length (filter has_transition (map (\<lambda>s. the (s_text s)) ss)))" for m
    using Cons.prems by (intro Cons.IH) simp_all
  with Cons.prems(1) t show ?case
    by simp
qed

lemma count_transitions_script:
  assumes "list_all (\<lambda>s. s_text s \<noteq> None) (tl ss)"
  shows "count_transitions (enumerate 0 ss) 0 =
    Inr (length (filter has_transition (map (\<lambda>s. the (s_text s)) (tl ss))))"
proof (cases ss)
  case Nil
  then show ?thesis by simp
next
  case (Cons s rest)
  with assms have "list_all (\<lambda>s. s_text s \<noteq> None) rest"
    by simp
  then have "count_transitions (enumerate (Suc 0) rest) 0 =
      Inr (0 + length (filter has_transition (map (\<lambda>s. the (s_text s)) rest)))"
    by (intro count_transitions_enumerate) simp_all
  with Cons show ?thesis
    by simp
qed

lemma transitions_value:
  assumes "list_all (\<lambda>s. s_text s \<noteq> None) (tl (script ev))"
  shows "evaluate_transitions ev =
    Inr (if 1 < length (script ev)
         then real (length (filter has_transition
                     (map (\<lambda>s. the (s_text s)) (tl (script ev)))))
              / real (length (script ev) - 1)
         else 1)"
proof (cases "1 < length (script ev)")
  case True
  then have "real_of_int (int (length (script ev)) - 1) = real (length (script ev) - 1)"
    by (simp add: of_nat_diff)
  moreover have "real (length (script ev) - 1) \<noteq> 0"
    using True by simp
  ultimately show ?thesis
    using True
    by (simp add: evaluate_transitions_def count_transitions_script[OF assms] Let_def py_div_def
        del: of_int_diff)
next
  case False
  then show ?thesis
    by (simp add: evaluate_transitions_def count_transitions_script[OF assms] Let_def)
qed

lemma transitions_unit:
  assumes "has_texts ev"
  shows "returns_unit (evaluate_transitions ev)"
proof -
  have tl: "list_all (\<lambda>s. s_text s \<noteq> None) (tl (script ev))"
    using assms by (cases "script ev") (simp_all add: has_texts_def)
  let ?c = "length (filter has_transition (map (\<lambda>s. the (s_text s)) (tl (script ev))))"
  have "?c \<le> length (script ev) - 1"
    using length_filter_le[of has_transition "map (\<lambda>s. the (s_text s)) (tl (script ev))"]
    by simp
  then show ?thesis
    by (intro returns_unitI[OF transitions_value[OF tl]]) (auto simp: divide_le_eq_1)
qed

lemma organization_unit: "returns_unit (evaluate_organization ev)"
  by (intro returns_unitI[of _ "(of_bool (has_intro ev) + of_bool (has_conclusion ev)
        + of_bool (has_body ev)) / 3"])
     (simp_all add: evaluate_organization_def)

definition structure_unit :: "structure_scores \<Rightarrow> bool" where
  "structure_unit st \<longleftrightarrow>
     list_all unit_interval
       [coherence_score st, time_balance_score st, transition_score st, organization_score st]
     \<and> unit_interval (st_overall_score st)"

lemma structure_KeyError:
  "\<not> has_slides ev \<Longrightarrow> evaluate_structure ev = Inl KeyError"
  by (simp add: evaluate_structure_def coherence_KeyError)

lemma structure_overflow:
  assumes "has_slides ev" and "balance_overflows ev"
  shows "evaluate_structure ev = Inl OverflowError"
proof -
  obtain co where "evaluate_coherence ev = Inr co"
    using coherence_unit[OF assms(1)] by (rule returns_unitE)
  then show ?thesis
    by (simp add: evaluate_structure_def time_balance_overflow[OF assms(2)])
qed

lemma structure_ok:
  assumes "has_texts ev" and "has_slides ev" and "\<not> balance_overflows ev"
  shows "\<exists>st. evaluate_structure ev = Inr st \<and> structure_unit st"
proof -
  obtain co where co: "evaluate_coherence ev = Inr co" "0 \<le> co" "co \<le> 1"
    using coherence_unit[OF assms(2)] by (rule returns_unitE)
  obtain tb where tb: "evaluate_time_balance ev = Inr tb" "0 \<le> tb" "tb \<le> 1"
    using time_balance_unit[OF assms(3)] by (rule returns_unitE)
  obtain tr where tr: "evaluate_transitions ev = Inr tr" "0 \<le> tr" "tr \<le> 1"
    using transitions_unit[OF assms(1)] by (rule returns_unitE)
  obtain og where og: "evaluate_organization ev = Inr og" "0 \<le> og" "og \<le> 1"
    using organization_unit by (rule returns_unitE)
  have "evaluate_structure ev =
      Inr \<lparr>coherence_score = co, time_balance_score = tb, transition_score = tr,
           organization_score = og, st_overall_score = (co + tb + tr + og) / 4\<rparr>"
    by (simp add: evaluate_structure_def co(1) tb(1) tr(1) og(1))
  then show ?thesis
    using co tb tr og by (simp add: structure_unit_def unit_interval_def)
qed

subsection \<open>Language quality\<close>

lemma returns_unit_Inr: "0 \<le> v \<Longrightarrow> v \<le> 1 \<Longrightarrow> returns_unit (Inr v)"
  by (simp add: returns_unit_def unit_interval_def)

lemma clarity_unit:
  assumes "has_texts ev"
  shows "returns_unit (evaluate_clarity ev)"
proof -
  define sentences where "sentences =
    filter (\<lambda>s. s \<noteq> []) (map strip (re_split sentence_end_re (speech_text_of ev)))"
  define avg where "avg =
    real (sum_list (map (\<lambda>s. length (split_ws s)) sentences)) / real (length sentences)"
  have avg: "0 \<le> avg"
    by (simp add: avg_def)
  show ?thesis
  proof (cases "sentences = []")
    case True
    with assms show ?thesis
      unfolding evaluate_clarity_def sentences_def[symmetric] Let_def
      by (intro returns_unitI[of _ 0]) (simp_all add: all_script_text_cases sentences_def[symmetric])
  next
    case False
    then have div: "py_div (real (sum_list (map (\<lambda>s. length (split_ws s)) sentences)))
        (real (length sentences)) = Inr avg"
      by (simp add: py_div_def avg_def)
    have "evaluate_clarity ev =
        (if 12 \<le> avg \<and> avg \<le> 25 then Inr 1
         else if avg < 12 then Inr (0.7 + (avg / 12) * 0.3)
         else Inr (max 0.3 (1 - (avg - 25) / 25)))"
      using assms False
      by (simp add: evaluate_clarity_def all_script_text_cases sentences_def[symmetric]
          Let_def div)
    moreover have "returns_unit (if 12 \<le> avg \<and> avg \<le> 25 then Inr 1
         else if avg < 12 then Inr (0.7 + (avg / 12) * 0.3)
         else Inr (max 0.3 (1 - (avg - 25) / 25)))"
      using avg by (auto intro!: returns_unit_Inr)
    ultimately show ?thesis
      by simp
  qed
qed

lemma conversational_unit:
  assumes "has_texts ev"
  shows "returns_unit (evaluate_conversational_style ev)"
proof -
  define ws where "ws = split_ws (lower (speech_text_of ev))"
  define mc where "mc =
    length (filter (\<lambda>word. list_ex (\<lambda>marker. py_in marker word) conversational_markers) ws)"
  define ratio where "ratio = (if ws \<noteq> [] then real mc / real (length ws) * 100 else 0)"
  have ratio: "0 \<le> ratio"
    by (simp add: ratio_def)
  have r: "(if ws \<noteq> [] then bind_err (py_div (real mc) (real (length ws))) (\<lambda>q. Inr (q * 100))
            else Inr 0) = Inr ratio"
    by (simp add: ratio_def py_div_def)
  have "evaluate_conversational_style ev =
      (if 2 \<le> ratio \<and> ratio \<le> 6 then Inr 1
       else if ratio < 2 then Inr (ratio / 2)
       else Inr (max 0.5 (1 - (ratio - 6) / 10)))"
    using assms
    unfolding evaluate_conversational_style_def Let_def
    by (simp only: all_script_text_cases if_True bind_err_simps ws_def[symmetric]
        mc_def[symmetric] r)
  moreover have "returns_unit (if 2 \<le> ratio \<and> ratio \<le> 6 then Inr 1
       else if ratio < 2 then Inr (ratio / 2)
       else Inr (max 0.5 (1 - (ratio - 6) / 10)))"
    using ratio by (auto intro!: returns_unit_Inr)
  ultimately show ?thesis
    by simp
qed

lemma vocabulary_unit:
  assumes "has_texts ev"
  shows "returns_unit (evaluate_vocabulary ev)"
proof -
  define ws where "ws = findall ascii_word_re (lower (speech_text_of ev))
    @ findall chinese_run_re (lower (speech_text_of ev))"
  define ttr where "ttr = real (card (set ws)) / real (length ws)"
  have ttr: "0 \<le> ttr"
    by (simp add: ttr_def)
  show ?thesis
  proof (cases "ws = []")
    case True
    with assms show ?thesis
      unfolding evaluate_vocabulary_def Let_def
      by (intro returns_unitI[of _ 0])
         (simp_all only: all_script_text_cases if_True bind_err_simps ws_def[symmetric],
          simp_all)
  next
    case False
    then have div: "py_div (real (card (set ws))) (real (length ws)) = Inr ttr"
      by (simp add: py_div_def ttr_def)
    have "evaluate_vocabulary ev =
        (if 0.35 \<le> ttr \<and> ttr \<le> 0.65 then Inr 1
         else if ttr < 0.35 then Inr (ttr / 0.35)
         else Inr (max 0.6 (1 - (ttr - 0.65) / 0.35)))"
      using assms False
      unfolding evaluate_vocabulary_def Let_def
      by (simp only: all_script_text_cases if_True if_False bind_err_simps ws_def[symmetric] div)
    moreover have "returns_unit (if 0.35 \<le> ttr \<and> ttr \<le> 0.65 then Inr 1
         else if ttr < 0.35 then Inr (ttr / 0.35)
         else Inr (max 0.6 (1 - (ttr - 0.65) / 0.35)))"
      using ttr by (auto intro!: returns_unit_Inr)
    ultimately show ?thesis
      by simp
  qed
qed

lemma length_technical_terms: "length technical_terms = 12"
  by (simp add: technical_terms_def)

lemma professionalism_unit:
  assumes "has_texts ev"
  shows "returns_unit (evaluate_professionalism ev)"
proof -
  define u where "u =
    real (length (filter (\<lambda>term. py_in term (lower (speech_text_of ev))) technical_terms))"
  have u: "0 \<le> u"
    by (simp add: u_def)
  have "evaluate_professionalism ev = Inr (min (u / 6) 1)"
    using assms
    by (simp add: evaluate_professionalism_def all_script_text_cases Let_def py_div_def
        length_technical_terms u_def)
  then show ?thesis
    using u by (intro returns_unitI[of _ "min (u / 6) 1"]) simp_all
qed

definition language_unit :: "language_scores \<Rightarrow> bool" where
  "language_unit lq \<longleftrightarrow>
     list_all unit_interval
       [clarity_score lq, conversational_score lq, vocabulary_richness lq,
        professionalism_score lq]
     \<and> unit_interval (lq_overall_score lq)"

lemma language_quality_ok:
  assumes "has_texts ev"
  shows "\<exists>lq. evaluate_language_quality ev = Inr lq \<and> language_unit lq"
proof -
  obtain cl where cl: "evaluate_clarity ev = Inr cl" "0 \<le> cl" "cl \<le> 1"
    using clarity_unit[OF assms] by (rule returns_unitE)
  obtain cv where cv: "evaluate_conversational_style ev = Inr cv" "0 \<le> cv" "cv \<le> 1"
    using conversational_unit[OF assms] by (rule returns_unitE)
  obtain vo where vo: "evaluate_vocabulary ev = Inr vo" "0 \<le> vo" "vo \<le> 1"
    using vocabulary_unit[OF assms] by (rule returns_unitE)
  obtain pr where pr: "evaluate_professionalism ev = Inr pr" "0 \<le> pr" "pr \<le> 1"
    using professionalism_unit[OF assms] by (rule returns_unitE)
  have "evaluate_language_quality ev =
      Inr \<lparr>clarity_score = cl, conversational_score = cv, vocabulary_richness = vo,
           professionalism_score = pr, lq_overall_score = (cl + cv + vo + pr) / 4\<rparr>"
    by (simp add: evaluate_language_quality_def cl(1) cv(1) vo(1) pr(1))
  then show ?thesis
    using cl cv vo pr by (simp add: language_unit_def unit_interval_def)
qed

subsection \<open>Detail richness\<close>

lemma expansion_value:
  assumes "has_texts ev" and "split_ws (slides_content ev) = []"
  shows "calculate_expansion_ratio ev = Inr 0"
  using assms by (simp add: calculate_expansion_ratio_def Let_def all_script_text_cases)

lemma expansion_unit:
  assumes "has_texts ev"
  shows "returns_unit (calculate_expansion_ratio ev)"
proof (cases "length (split_ws (slides_content ev)) = 0")
  case True
  with assms show ?thesis
    by (intro returns_unitI[of _ 0]) (simp_all add: expansion_value)
next
  case False
  define ratio where "ratio = real (length (split_ws (speech_text_of ev)))
    / real (length (split_ws (slides_content ev)))"
  have ratio: "0 \<le> ratio"
    by (simp add: ratio_def)
  have "calculate_expansion_ratio ev =
      (if 1.5 \<le> ratio \<and> ratio \<le> 3 then Inr 1
       else if ratio < 1.5 then Inr (ratio / 1.5)
       else Inr (max 0.5 (1 - (ratio - 3) / 3)))"
    using assms False
    by (simp add: calculate_expansion_ratio_def Let_def all_script_text_cases py_div_def
        ratio_def)
  moreover have "returns_unit (if 1.5 \<le> ratio \<and> ratio \<le> 3 then Inr 1
       else if ratio < 1.5 then Inr (ratio / 1.5)
       else Inr (max 0.5 (1 - (ratio - 3) / 3)))"
    using ratio by (auto intro!: returns_unit_Inr)
  ultimately show ?thesis
    by simp
qed

lemma capped_ratio_unit:
  fixes c ideal :: real
  assumes "0 \<le> c" and "0 \<le> ideal"
  shows "bind_err (py_div c (max ideal 1)) (\<lambda>q. Inr (min q 1)) = Inr (min (c / max ideal 1) 1)"
    and "0 \<le> min (c / max ideal 1) 1" and "min (c / max ideal 1) 1 \<le> 1"
  using assms by (simp_all add: py_div_def)

lemma example_usage_unit:
  assumes "has_texts ev"
  shows "returns_unit (check_example_usage ev)"
proof -
  define c where "c =
    real (sum_list (map (py_count (lower (speech_text_of ev))) example_indicators))"
  define ideal where "ideal = real (length (script ev)) / 4.5"
  have c: "0 \<le> c" and ideal: "0 \<le> ideal"
    by (simp_all add: c_def ideal_def)
  have "py_div (real (length (script ev))) 4.5 = Inr ideal"
    by (simp add: py_div_def ideal_def)
  then have "check_example_usage ev = Inr (min (c / max ideal 1) 1)"
    using assms
    unfolding check_example_usage_def Let_def
    by (simp only: all_script_text_cases if_True bind_err_simps c_def[symmetric]
        capped_ratio_unit(1)[OF c ideal])
  then show ?thesis
    using capped_ratio_unit(2,3)[OF c ideal] by (rule returns_unitI)
qed

lemma explanations_unit:
  assumes "has_texts ev"
  shows "returns_unit (evaluate_explanations ev)"
proof -
  define c where "c =
    real (sum_list (map (py_count (lower (speech_text_of ev))) explanation_markers))"
  define ideal where "ideal = real (length (script ev)) / 3"
  have c: "0 \<le> c" and ideal: "0 \<le> ideal"
    by (simp_all add: c_def ideal_def)
  have "py_div (real (length (script ev))) 3 = Inr ideal"
    by (simp add: py_div_def ideal_def)
  then have "evaluate_explanations ev = Inr (min (c / max ideal 1) 1)"
    using assms
    unfolding evaluate_explanations_def Let_def
    by (simp only: all_script_text_cases if_True bind_err_simps c_def[symmetric]
        capped_ratio_unit(1)[OF c ideal])
  then show ?thesis
    using capped_ratio_unit(2,3)[OF c ideal] by (rule returns_unitI)
qed

lemma context_unit:
  assumes "has_texts ev"
  shows "returns_unit (evaluate_context ev)"
proof -
  define c where "c = real (length
    (filter (\<lambda>keyword. py_in keyword (lower (speech_text_of ev))) context_keywords))"
  have c: "0 \<le> c"
    by (simp add: c_def)
  have "evaluate_context ev = Inr (min (c / 4) 1)"
    using assms
    by (simp add: evaluate_context_def all_script_text_cases Let_def py_div_def c_def)
  then show ?thesis
    using c by (intro returns_unitI[of _ "min (c / 4) 1"]) simp_all
qed

definition detail_unit :: "detail_scores \<Rightarrow> bool" where
  "detail_unit dr \<longleftrightarrow>
     list_all unit_interval
       [expansion_ratio_score dr, example_usage_score dr, explanation_quality dr,
        context_provision dr]
     \<and> unit_interval (dr_overall_score dr)"

lemma detail_richness_ok:
  assumes "has_texts ev"
  shows "\<exists>dr. evaluate_detail_richness ev = Inr dr \<and> detail_unit dr
    \<and> calculate_expansion_ratio ev = Inr (expansion_ratio_score dr)"
proof -
  obtain ex where ex: "calculate_expansion_ratio ev = Inr ex" "0 \<le> ex" "ex \<le> 1"
    using expansion_unit[OF assms] by (rule returns_unitE)
  obtain eu where eu: "check_example_usage ev = Inr eu" "0 \<le> eu" "eu \<le> 1"
    using example_usage_unit[OF assms] by (rule returns_unitE)
  obtain xp where xp: "evaluate_explanations ev = Inr xp" "0 \<le> xp" "xp \<le> 1"
    using explanations_unit[OF assms] by (rule returns_unitE)
  obtain cx where cx: "evaluate_context ev = Inr cx" "0 \<le> cx" "cx \<le> 1"
    using context_unit[OF assms] by (rule returns_unitE)
  have "evaluate_detail_richness ev =
      Inr \<lparr>expansion_ratio_score = ex, example_usage_score = eu, explanation_quality = xp,
           context_provision = cx, dr_overall_score = (ex + eu + xp + cx) / 4\<rparr>"
    by (simp add: evaluate_detail_richness_def ex(1) eu(1) xp(1) cx(1))
  then show ?thesis
    using ex eu xp cx by (simp add: detail_unit_def unit_interval_def)
qed

subsection \<open>Time management\<close>

lemma py_float_nonneg: "0 \<le> py_float t"
  by (simp add: py_float_def Let_def)

lemma parse_duration_nonneg: "0 \<le> parse_duration s"
  by (simp add: parse_duration_def Let_def py_float_nonneg split: option.splits prod.splits)

lemma duration_of_nonneg: "0 \<le> duration_of p"
  by (simp add: duration_of_def parse_duration_nonneg)

lemma foldl_add_sum_list:
  fixes a :: real
  shows "foldl (\<lambda>total p. total + f p) a xs = a + sum_list (map f xs)"
  by (induction xs arbitrary: a) simp_all

lemma calculate_total_time_sum:
  "calculate_total_time ev = sum_list (map duration_of (plan ev))"
  by (simp add: calculate_total_time_def foldl_add_sum_list)

lemma calculate_total_time_nonneg: "0 \<le> calculate_total_time ev"
  unfolding calculate_total_time_sum
  by (intro sum_list_nonneg) (auto simp: duration_of_nonneg)

lemma duration_appropriateness_unit:
  "returns_unit (evaluate_duration_appropriateness ev (calculate_total_time ev))"
proof (cases "plan ev = []")
  case True
  then have "calculate_total_time ev = 0"
    by (simp add: calculate_total_time_def)
  with True show ?thesis
    by (intro returns_unitI[of _ 1])
       (simp_all add: evaluate_duration_appropriateness_def Let_def)
next
  case False
  define n where "n = real (length (plan ev))"
  define total where "total = calculate_total_time ev"
  have n: "0 < n"
    using False by (simp add: n_def)
  have total: "0 \<le> total"
    by (simp add: total_def calculate_total_time_nonneg)
  have "evaluate_duration_appropriateness ev total =
      (if n \<le> total \<and> total \<le> n * 2.5 then Inr 1
       else if total < n then Inr (total / n)
       else Inr (max 0.4 (1 - (total - n * 2.5) / (n * 2.5))))"
    using n
    by (simp add: evaluate_duration_appropriateness_def Let_def py_div_def n_def[symmetric])
  moreover have "returns_unit (if n \<le> total \<and> total \<le> n * 2.5 then Inr 1
       else if total < n then Inr (total / n)
       else Inr (max 0.4 (1 - (total - n * 2.5) / (n * 2.5))))"
    using n total by (auto intro!: returns_unit_Inr)
  ultimately show ?thesis
    by (simp add: total_def)
qed

lemma time_distribution_unit: "returns_unit (evaluate_time_distribution ev)"
  unfolding evaluate_time_distribution_def Let_def
  by (auto intro!: returns_unit_Inr)

lemma pace_unit: "returns_unit (evaluate_pace ev)"
proof -
  define ds where "ds = timed_durations ev"
  show ?thesis
  proof (cases "ds = []")
    case True
    then show ?thesis
      unfolding evaluate_pace_def ds_def[symmetric] Let_def
      by (intro returns_unitI[of _ 1]) simp_all
  next
    case False
    define mean where "mean = sum_list ds / real (length ds)"
    define q where "q = real (length (filter (is_extreme mean) ds)) / real (length ds)"
    have "length (filter (is_extreme mean) ds) \<le> length ds"
      by simp
    then have q: "0 \<le> q" "q \<le> 1"
      using False by (simp_all add: q_def divide_le_eq_1)
    have "evaluate_pace ev = Inr (max 0 (1 - q))"
      using False q
      unfolding evaluate_pace_def ds_def[symmetric] Let_def
      by (simp add: py_div_def mean_def[symmetric] q_def[symmetric])
    then show ?thesis
      using q by (intro returns_unitI[of _ "max 0 (1 - q)"]) simp_all
  qed
qed

definition time_unit :: "time_scores \<Rightarrow> bool" where
  "time_unit tm \<longleftrightarrow>
     list_all unit_interval
       [duration_appropriateness tm, time_distribution_score tm, pace_consistency tm]
     \<and> unit_interval (tm_overall_score tm)"

lemma time_management_ok:
  "\<exists>tm. evaluate_time_management ev = Inr tm \<and> time_unit tm
     \<and> total_minutes tm = calculate_total_time ev"
proof -
  obtain da where da:
    "evaluate_duration_appropriateness ev (calculate_total_time ev) = Inr da"
    "0 \<le> da" "da \<le> 1"
    using duration_appropriateness_unit by (rule returns_unitE)
  obtain td where td: "evaluate_time_distribution ev = Inr td" "0 \<le> td" "td \<le> 1"
    using time_distribution_unit by (rule returns_unitE)
  obtain pc where pc: "evaluate_pace ev = Inr pc" "0 \<le> pc" "pc \<le> 1"
    using pace_unit by (rule returns_unitE)
  have "evaluate_time_management ev =
      Inr \<lparr>total_minutes = calculate_total_time ev, duration_appropriateness = da,
           time_distribution_score = td, pace_consistency = pc,
           tm_overall_score = (da + td + pc) / 3\<rparr>"
    by (simp add: evaluate_time_management_def Let_def da(1) td(1) pc(1))
  then show ?thesis
    using da td pc by (simp add: time_unit_def unit_interval_def)
qed

subsection \<open>The whole evaluation\<close>

lemma weighted_sum_weights:
  "weighted_sum
     [(ascii ''content_consistency'', a), (ascii ''structure'', b),
      (ascii ''language_quality'', c), (ascii ''detail_richness'', d),
      (ascii ''time_management'', e)] weights
   = Inr (a * 0.30 + (b * 0.25 + (c * 0.20 + (d * 0.15 + (e * 0.10 + 0)))))"
  by (simp add: weights_def ascii_def)

definition required_keys :: "evaluator \<Rightarrow> bool" where
  "required_keys ev \<longleftrightarrow> has_texts ev \<and> has_slides ev"

definition weighted_overall :: "results \<Rightarrow> real" where
  "weighted_overall r =
     cc_overall_score (content_consistency r) * 0.30
     + st_overall_score (structure_dim r) * 0.25
     + lq_overall_score (language_quality r) * 0.20
     + dr_overall_score (detail_richness r) * 0.15
     + tm_overall_score (time_management r) * 0.10"

lemma evaluate_all_KeyError:
  assumes "\<not> required_keys ev"
  shows "evaluate_all ev = Inl KeyError"
proof (cases "has_texts ev")
  case False
  then show ?thesis
    by (simp add: evaluate_all_def content_consistency_KeyError)
next
  case True
  with assms have "\<not> has_slides ev"
    by (simp add: required_keys_def)
  moreover obtain cc where "evaluate_content_consistency ev = Inr cc"
    using content_consistency_ok[OF True] by blast
  ultimately show ?thesis
    by (simp add: evaluate_all_def structure_KeyError)
qed

lemma evaluate_all_overflow:
  assumes "required_keys ev" and "balance_overflows ev"
  shows "evaluate_all ev = Inl OverflowError"
proof -
  from assms(1) have t: "has_texts ev" and s: "has_slides ev"
    by (simp_all add: required_keys_def)
  obtain cc where "evaluate_content_consistency ev = Inr cc"
    using content_consistency_ok[OF t] by blast
  then show ?thesis
    by (simp add: evaluate_all_def structure_overflow[OF s assms(2)])
qed

lemma evaluate_all_ok:
  assumes "required_keys ev" and "\<not> balance_overflows ev"
  shows "\<exists>r. evaluate_all ev = Inr r
    \<and> content_unit (content_consistency r) \<and> structure_unit (structure_dim r)
    \<and> language_unit (language_quality r) \<and> detail_unit (detail_richness r)
    \<and> time_unit (time_management r)
    \<and> total_minutes (time_management r) = calculate_total_time ev
    \<and> overall_score r = weighted_overall r
    \<and> grade r = get_grade (overall_score r)
    \<and> result_weights r = weights
    \<and> evaluate_content_consistency ev = Inr (content_consistency r)
    \<and> evaluate_detail_richness ev = Inr (detail_richness r)"
proof -
  from assms(1) have t: "has_texts ev" and s: "has_slides ev"
    by (simp_all add: required_keys_def)
  obtain cc where cc: "evaluate_content_consistency ev = Inr cc" "content_unit cc"
    using content_consistency_ok[OF t] by blast
  obtain st where st: "evaluate_structure ev = Inr st" "structure_unit st"
    using structure_ok[OF t s assms(2)] by blast
  obtain lq where lq: "evaluate_language_quality ev = Inr lq" "language_unit lq"
    using language_quality_ok[OF t] by blast
  obtain dr where dr: "evaluate_detail_richness ev = Inr dr" "detail_unit dr"
    using detail_richness_ok[OF t] by blast
  obtain tm where tm: "evaluate_time_management ev = Inr tm" "time_unit tm"
    "total_minutes tm = calculate_total_time ev"
    using time_management_ok by blast
  define ov where "ov = cc_overall_score cc * 0.30 + (st_overall_score st * 0.25
    + (lq_overall_score lq * 0.20 + (dr_overall_score dr * 0.15
    + (tm_overall_score tm * 0.10 + 0))))"
  have "evaluate_all ev =
      Inr \<lparr>content_consistency = cc, structure_dim = st, language_quality = lq,
           detail_richness = dr, time_management = tm, overall_score = ov,
           grade = get_grade ov, result_weights = weights\<rparr>"
    unfolding evaluate_all_def
    by (simp only: cc(1) st(1) lq(1) dr(1) tm(1) bind_err_simps weighted_sum_weights
        ov_def[symmetric])
  moreover have "ov = cc_overall_score cc * 0.30 + st_overall_score st * 0.25
    + lq_overall_score lq * 0.20 + dr_overall_score dr * 0.15 + tm_overall_score tm * 0.10"
    by (simp add: ov_def)
  ultimately show ?thesis
    using cc st lq dr tm by (simp add: weighted_overall_def)
qed

text \<open>What \<open>evaluate_all\<close> does on every input of the model.\<close>

lemma evaluate_all_cases:
  "(\<not> required_keys ev \<and> evaluate_all ev = Inl KeyError)
   \<or> (required_keys ev \<and> balance_overflows ev \<and> evaluate_all ev = Inl OverflowError)
   \<or> (required_keys ev \<and> \<not> balance_overflows ev \<and> (\<exists>r. evaluate_all ev = Inr r))"
  using evaluate_all_KeyError[of ev] evaluate_all_overflow[of ev] evaluate_all_ok[of ev]
  by blast

section \<open>The degenerate input: nothing on the slides, an empty plan and an empty script\<close>

definition empty_evaluator :: evaluator where
  "empty_evaluator = \<lparr>slides_content = [], plan = [], script = []\<rparr>"

definition empty_results :: results where
  "empty_results =
     \<lparr>content_consistency =
        \<lparr>keyword_coverage = 1, concept_coverage = 1, slide_title_coverage = 1,
         fact_accuracy = 1, hallucination_risk_score = 0, cc_overall_score = 1\<rparr>,
      structure_dim =
        \<lparr>coherence_score = 1, time_balance_score = 1, transition_score = 1,
         organization_score = 0, st_overall_score = 3 / 4\<rparr>,
      language_quality =
        \<lparr>clarity_score = 0, conversational_score = 0, vocabulary_richness = 0,
         professionalism_score = 0, lq_overall_score = 0\<rparr>,
      detail_richness =
        \<lparr>expansion_ratio_score = 0, example_usage_score = 0, explanation_quality = 0,
         context_provision = 0, dr_overall_score = 0\<rparr>,
      time_management =
        \<lparr>total_minutes = 0, duration_appropriateness = 1, time_distribution_score = 1,
         pace_consistency = 1, tm_overall_score = 1\<rparr>,
      overall_score = 47 / 80,
      grade = grade_F,
      result_weights = weights\<rparr>"

lemma empty_fields [simp]:
  "slides_content empty_evaluator = []"
  "plan empty_evaluator = []"
  "script empty_evaluator = []"
  by (simp_all add: empty_evaluator_def)

lemma empty_text [simp]:
  "has_texts empty_evaluator"
  "has_slides empty_evaluator"
  "speech_text_of empty_evaluator = []"
  "all_script_text empty_evaluator = Inr []"
  by (simp_all add: has_texts_def has_slides_def speech_text_of_def all_script_text_def)

lemma findall_empty:
  "findall english_word_re [] = []"
  "findall chinese_word_re [] = []"
  "findall title_case_re [] = []"
  "findall hyphenated_re [] = []"
  "findall chinese_concept_re [] = []"
  "findall abbreviation_re [] = []"
  "findall number_fact_re [] = []"
  "findall name_re [] = []"
  "findall ascii_word_re [] = []"
  "findall chinese_run_re [] = []"
  "re_split sentence_end_re [] = [[]]"
  by (simp_all add: english_word_re_def chinese_word_re_def title_case_re_def
      hyphenated_re_def chinese_concept_re_def abbreviation_re_def number_fact_re_def
      name_re_def ascii_word_re_def chinese_run_re_def sentence_end_re_def re_eval
      at_boundary_def)

lemma extract_empty [simp]:
  "extract_keywords [] = {#}"
  "extract_key_concepts [] = {}"
  by (simp_all add: extract_keywords_def extract_key_concepts_def lower_def findall_empty)

lemma split_ws_empty [simp]: "split_ws [] = []"
  by (simp add: split_ws_def)

lemma lower_empty [simp]: "lower [] = []"
  by (simp add: lower_def)

lemma py_count_empty: "p \<noteq> [] \<Longrightarrow> py_count [] p = 0"
  by (simp add: py_count.simps)

lemma content_empty:
  "evaluate_content_consistency empty_evaluator = Inr (content_consistency empty_results)"
  by (simp add: evaluate_content_consistency_def calculate_coverage_def
      check_slide_title_coverage_def detect_hallucination_risk_def check_fact_consistency_def
      findall_empty empty_results_def)

lemma structure_empty:
  "evaluate_structure empty_evaluator = Inr (structure_dim empty_results)"
  by (simp add: evaluate_structure_def evaluate_coherence_def evaluate_time_balance_def
      evaluate_transitions_def evaluate_organization_def has_intro_def has_conclusion_def
      has_body_def timed_durations_def non_decreasing_def empty_results_def)

lemma clarity_empty: "evaluate_clarity empty_evaluator = Inr 0"
  by (simp add: evaluate_clarity_def findall_empty strip_def)

lemma conversational_empty: "evaluate_conversational_style empty_evaluator = Inr 0"
  by (simp add: evaluate_conversational_style_def)

lemma vocabulary_empty: "evaluate_vocabulary empty_evaluator = Inr 0"
  by (simp add: evaluate_vocabulary_def findall_empty)

lemma technical_terms_nonempty: "filter (\<lambda>term. term = []) technical_terms = []"
  by (simp add: technical_terms_def ascii_def)

lemma professionalism_empty: "evaluate_professionalism empty_evaluator = Inr 0"
  by (simp add: evaluate_professionalism_def technical_terms_nonempty length_technical_terms
      py_div_def)

lemma language_empty:
  "evaluate_language_quality empty_evaluator = Inr (language_quality empty_results)"
  by (simp add: evaluate_language_quality_def clarity_empty conversational_empty
      vocabulary_empty professionalism_empty empty_results_def)

lemma expansion_empty: "calculate_expansion_ratio empty_evaluator = Inr 0"
  by (simp add: calculate_expansion_ratio_def)

lemma example_count_empty: "sum_list (map (py_count []) example_indicators) = 0"
  by (simp add: example_indicators_def ascii_def py_count_empty)

lemma example_empty: "check_example_usage empty_evaluator = Inr 0"
  by (simp add: check_example_usage_def example_count_empty py_div_def)

lemma explanation_count_empty: "sum_list (map (py_count []) explanation_markers) = 0"
  by (simp add: explanation_markers_def ascii_def py_count_empty)

lemma explanations_empty: "evaluate_explanations empty_evaluator = Inr 0"
  by (simp add: evaluate_explanations_def explanation_count_empty py_div_def)

lemma context_keywords_nonempty: "filter (\<lambda>keyword. keyword = []) context_keywords = []"
  by (simp add: context_keywords_def ascii_def)

lemma context_empty: "evaluate_context empty_evaluator = Inr 0"
  by (simp add: evaluate_context_def context_keywords_nonempty py_div_def)

lemma detail_empty:
  "evaluate_detail_richness empty_evaluator = Inr (detail_richness empty_results)"
  by (simp add: evaluate_detail_richness_def expansion_empty example_empty explanations_empty
      context_empty empty_results_def)

lemma time_empty:
  "evaluate_time_management empty_evaluator = Inr (time_management empty_results)"
  by (simp add: evaluate_time_management_def calculate_total_time_def
      evaluate_duration_appropriateness_def evaluate_time_distribution_def evaluate_pace_def
      timed_durations_def empty_results_def)

lemma evaluate_all_empty: "evaluate_all empty_evaluator = Inr empty_results"
proof -
  have "get_grade (47 / 80) = grade_F"
    by (simp add: get_grade_def)
  then show ?thesis
    unfolding evaluate_all_def content_empty structure_empty language_empty detail_empty
      time_empty bind_err_simps weighted_sum_weights
    by (simp add: empty_results_def)
qed

section \<open>Weights and the overall score\<close>

text \<open>\<open>results[key]['overall_score']\<close> for the five keys of \<open>weights\<close>.\<close>

definition dimension_overall :: "results \<Rightarrow> ustr \<Rightarrow> real" where
  "dimension_overall r key =
     (if key = ascii ''content_consistency'' then cc_overall_score (content_consistency r)
      else if key = ascii ''structure'' then st_overall_score (structure_dim r)
      else if key = ascii ''language_quality'' then lq_overall_score (language_quality r)
      else if key = ascii ''detail_richness'' then dr_overall_score (detail_richness r)
      else tm_overall_score (time_management r))"

lemma weighted_overall_table:
  "weighted_overall r = sum_list (map (\<lambda>(key, w). w * dimension_overall r key) weights)"
  by (simp add: weighted_overall_def weights_def dimension_overall_def ascii_def)

lemma bind_err_eq_Inr: "bind_err m f = Inr r \<longleftrightarrow> (\<exists>x. m = Inr x \<and> f x = Inr r)"
  by (cases m) simp_all

lemma evaluate_all_Inr:
  assumes "evaluate_all ev = Inr r"
  shows "overall_score r = weighted_overall r"
    and "result_weights r = weights" and "grade r = get_grade (overall_score r)"
  using assms unfolding evaluate_all_def
  by (auto simp: bind_err_eq_Inr weighted_sum_weights weighted_overall_def)

text \<open>
  C7. The weights are the constants 0.30, 0.25, 0.20, 0.15 and 0.10 of the five dimensions,
  they add up to exactly 1, and whenever \<open>evaluate_all\<close> returns a result, its overall
  score is the sum over the weight table of the weight times the overall score of that
  dimension (and the result carries the same table).
\<close>

theorem weights_sum_and_overall_score:
  "weights =
     [(ascii ''content_consistency'', 0.30), (ascii ''structure'', 0.25),
      (ascii ''language_quality'', 0.20), (ascii ''detail_richness'', 0.15),
      (ascii ''time_management'', 0.10)]
   \<and> sum_list (map snd weights) = 1
   \<and> (evaluate_all ev = Inr r \<longrightarrow>
        result_weights r = weights
        \<and> overall_score r
            = sum_list (map (\<lambda>(key, w). w * dimension_overall r key) weights)
        \<and> overall_score r
            = cc_overall_score (content_consistency r) * 0.30
              + st_overall_score (structure_dim r) * 0.25
              + lq_overall_score (language_quality r) * 0.20
              + dr_overall_score (detail_richness r) * 0.15
              + tm_overall_score (time_management r) * 0.10)"
proof (intro conjI impI)
  show "weights =
     [(ascii ''content_consistency'', 0.30), (ascii ''structure'', 0.25),
      (ascii ''language_quality'', 0.20), (ascii ''detail_richness'', 0.15),
      (ascii ''time_management'', 0.10)]"
    by (simp add: weights_def)
  show "sum_list (map snd weights) = 1"
    by (simp add: weights_def)
next
  assume r: "evaluate_all ev = Inr r"
  show "result_weights r = weights"
    by (rule evaluate_all_Inr(2)[OF r])
  show "overall_score r = sum_list (map (\<lambda>(key, w). w * dimension_overall r key) weights)"
    using evaluate_all_Inr(1)[OF r] by (simp only: weighted_overall_table)
  show "overall_score r
      = cc_overall_score (content_consistency r) * 0.30
        + st_overall_score (structure_dim r) * 0.25
        + lq_overall_score (language_quality r) * 0.20
        + dr_overall_score (detail_richness r) * 0.15
        + tm_overall_score (time_management r) * 0.10"
    using evaluate_all_Inr(1)[OF r] by (simp only: weighted_overall_def)
qed

theorem weights_sum_and_overall_score_witness:
  "evaluate_all empty_evaluator = Inr empty_results
   \<and> overall_score empty_results = 1 * 0.30 + (3 / 4) * 0.25 + 0 * 0.20 + 0 * 0.15 + 1 * 0.10
   \<and> result_weights empty_results = weights"
  using weights_sum_and_overall_score[of empty_evaluator empty_results] evaluate_all_empty
  by (simp add: empty_results_def)

section \<open>Grades\<close>

text \<open>
  The rank of a grade, from \<open>F\<close> (0) to \<open>A+\<close> (7): the order in which grade
  monotonicity compares grades.
\<close>

definition grade_rank :: "ustr \<Rightarrow> nat" where
  "grade_rank g =
     (if g = grade_A_plus then 7
      else if g = grade_A then 6
      else if g = grade_B_plus then 5
      else if g = grade_B then 4
      else if g = grade_C_plus then 3
      else if g = grade_C then 2
      else if g = grade_D then 1
      else 0)"

lemma grade_labels_distinct:
  "distinct [grade_A_plus, grade_A, grade_B_plus, grade_B, grade_C_plus, grade_C, grade_D,
     grade_F]"
  by (simp add: grade_A_plus_def grade_A_def grade_B_plus_def grade_B_def grade_C_plus_def
      grade_C_def grade_D_def grade_F_def ascii_def)

lemma grade_rank_labels:
  "grade_rank grade_A_plus = 7" "grade_rank grade_A = 6" "grade_rank grade_B_plus = 5"
  "grade_rank grade_B = 4" "grade_rank grade_C_plus = 3" "grade_rank grade_C = 2"
  "grade_rank grade_D = 1" "grade_rank grade_F = 0"
  using grade_labels_distinct by (auto simp: grade_rank_def)

lemma grade_rank_get_grade:
  "grade_rank (get_grade s) =
     (if 0.90 \<le> s then 7 else if 0.85 \<le> s then 6 else if 0.80 \<le> s then 5
      else if 0.75 \<le> s then 4 else if 0.70 \<le> s then 3 else if 0.65 \<le> s then 2
      else if 0.60 \<le> s then 1 else 0)"
  by (simp add: get_grade_def grade_rank_labels)

lemma band_grade_A_plus: "get_grade s = grade_A_plus \<longleftrightarrow> 0.90 \<le> s"
proof
  assume "get_grade s = grade_A_plus"
  then have "grade_rank (get_grade s) = 7"
    by (simp add: grade_rank_labels)
  then show "0.90 \<le> s"
    unfolding grade_rank_get_grade by (simp split: if_splits)
next
  assume "0.90 \<le> s"
  then show "get_grade s = grade_A_plus"
    by (simp add: get_grade_def)
qed

lemma band_grade_A: "get_grade s = grade_A \<longleftrightarrow> 0.85 \<le> s \<and> s < 0.90"
proof
  assume "get_grade s = grade_A"
  then have "grade_rank (get_grade s) = 6"
    by (simp add: grade_rank_labels)
  then show "0.85 \<le> s \<and> s < 0.90"
    unfolding grade_rank_get_grade by (simp split: if_splits)
next
  assume "0.85 \<le> s \<and> s < 0.90"
  then show "get_grade s = grade_A"
    by (simp add: get_grade_def)
qed

lemma band_grade_B_plus: "get_grade s = grade_B_plus \<longleftrightarrow> 0.80 \<le> s \<and> s < 0.85"
proof
  assume "get_grade s = grade_B_plus"
  then have "grade_rank (get_grade s) = 5"
    by (simp add: grade_rank_labels)
  then show "0.80 \<le> s \<and> s < 0.85"
    unfolding grade_rank_get_grade by (simp split: if_splits)
next
  assume "0.80 \<le> s \<and> s < 0.85"
  then show "get_grade s = grade_B_plus"
    by (simp add: get_grade_def)
qed

lemma band_grade_B: "get_grade s = grade_B \<longleftrightarrow> 0.75 \<le> s \<and> s < 0.80"
proof
  assume "get_grade s = grade_B"
  then have "grade_rank (get_grade s) = 4"
    by (simp add: grade_rank_labels)
  then show "0.75 \<le> s \<and> s < 0.80"
    unfolding grade_rank_get_grade by (simp split: if_splits)
next
  assume "0.75 \<le> s \<and> s < 0.80"
  then show "get_grade s = grade_B"
    by (simp add: get_grade_def)
qed

lemma band_grade_C_plus: "get_grade s = grade_C_plus \<longleftrightarrow> 0.70 \<le> s \<and> s < 0.75"
proof
  assume "get_grade s = grade_C_plus"
  then have "grade_rank (get_grade s) = 3"
    by (simp add: grade_rank_labels)
  then show "0.70 \<le> s \<and> s < 0.75"
    unfolding grade_rank_get_grade by (simp split: if_splits)
next
  assume "0.70 \<le> s \<and> s < 0.75"
  then show "get_grade s = grade_C_plus"
    by (simp add: get_grade_def)
qed

lemma band_grade_C: "get_grade s = grade_C \<longleftrightarrow> 0.65 \<le> s \<and> s < 0.70"
proof
  assume "get_grade s = grade_C"
  then have "grade_rank (get_grade s) = 2"
    by (simp add: grade_rank_labels)
  then show "0.65 \<le> s \<and> s < 0.70"
    unfolding grade_rank_get_grade by (simp split: if_splits)
next
  assume "0.65 \<le> s \<and> s < 0.70"
  then show "get_grade s = grade_C"
    by (simp add: get_grade_def)
qed

lemma band_grade_D: "get_grade s = grade_D \<longleftrightarrow> 0.60 \<le> s \<and> s < 0.65"
proof
  assume "get_grade s = grade_D"
  then have "grade_rank (get_grade s) = 1"
    by (simp add: grade_rank_labels)
  then show "0.60 \<le> s \<and> s < 0.65"
    unfolding grade_rank_get_grade by (simp split: if_splits)
next
  assume "0.60 \<le> s \<and> s < 0.65"
  then show "get_grade s = grade_D"
    by (simp add: get_grade_def)
qed

lemma band_grade_F: "get_grade s = grade_F \<longleftrightarrow> s < 0.60"
proof
  assume "get_grade s = grade_F"
  then have "grade_rank (get_grade s) = 0"
    by (simp add: grade_rank_labels)
  then show "s < 0.60"
    unfolding grade_rank_get_grade by (simp split: if_splits)
next
  assume "s < 0.60"
  then show "get_grade s = grade_F"
    by (simp add: get_grade_def)
qed

text \<open>
  C6. The grade is looked up by descending thresholds (at least 0.90 gives A+, 0.85 A,
  0.80 B+, 0.75 B, 0.70 C+, 0.65 C, 0.60 D, anything lower F), each grade is given on
  exactly its band, and grading is monotone: \<open>b \<le> a\<close> implies that the rank of the grade
  of \<open>b\<close> is at most the rank of the grade of \<open>a\<close>.
\<close>

theorem grade_thresholds_monotone:
  "(get_grade s = grade_A_plus \<longleftrightarrow> 0.90 \<le> s)
   \<and> (get_grade s = grade_A \<longleftrightarrow> 0.85 \<le> s \<and> s < 0.90)
   \<and> (get_grade s = grade_B_plus \<longleftrightarrow> 0.80 \<le> s \<and> s < 0.85)
   \<and> (get_grade s = grade_B \<longleftrightarrow> 0.75 \<le> s \<and> s < 0.80)
   \<and> (get_grade s = grade_C_plus \<longleftrightarrow> 0.70 \<le> s \<and> s < 0.75)
   \<and> (get_grade s = grade_C \<longleftrightarrow> 0.65 \<le> s \<and> s < 0.70)
   \<and> (get_grade s = grade_D \<longleftrightarrow> 0.60 \<le> s \<and> s < 0.65)
   \<and> (get_grade s = grade_F \<longleftrightarrow> s < 0.60)
   \<and> (b \<le> a \<longrightarrow> grade_rank (get_grade b) \<le> grade_rank (get_grade a))"
proof -
  have mono: "grade_rank (get_grade b) \<le> grade_rank (get_grade a)" if "b \<le> a"
    using that unfolding grade_rank_get_grade by (simp split: if_splits)
  show ?thesis
    by (intro conjI impI band_grade_A_plus band_grade_A band_grade_B_plus band_grade_B
        band_grade_C_plus band_grade_C band_grade_D band_grade_F mono)
qed

theorem grade_thresholds_monotone_witness:
  "(0.61 :: real) \<le> 0.92
   \<and> get_grade 0.87 = grade_A
   \<and> grade_rank (get_grade 0.61) = 1 \<and> grade_rank (get_grade 0.92) = 7
   \<and> grade_rank (get_grade 0.61) \<le> grade_rank (get_grade 0.92)"
  using grade_thresholds_monotone[of "0.87" "0.61" "0.92"]
  by (simp add: grade_rank_get_grade)

section \<open>Pace consistency: the scenario with durations 0.5, 0.5 and 10\<close>

definition pace_scenario :: evaluator where
  "pace_scenario =
     \<lparr>slides_content = [],
      plan = [\<lparr>p_slide = Some 1, p_title = Some (ascii ''Intro''),
               p_duration = Some (ascii ''30 seconds''), p_content = Some []\<rparr>,
              \<lparr>p_slide = Some 2, p_title = Some (ascii ''Method''),
               p_duration = Some (ascii ''0.5 min''), p_content = Some []\<rparr>,
              \<lparr>p_slide = Some 3, p_title = Some (ascii ''Results''),
               p_duration = Some (ascii ''10 min''), p_content = Some []\<rparr>],
      script = []\<rparr>"

lemma pace_scenario_durations: "map duration_of (plan pace_scenario) = [1 / 2, 1 / 2, 10]"
  by (simp add: pace_scenario_def duration_of_def parse_duration_def number_re_def
      py_float_def digits_val_def text_eval re_eval Let_def)

lemma pace_of_durations:
  assumes "map duration_of (plan ev) = [1 / 2, 1 / 2, 10]"
  shows "evaluate_pace ev = Inr 0"
  using assms by (simp add: evaluate_pace_def timed_durations_def py_div_def is_extreme_def)

text \<open>
  C3 as stated fails: with parsed durations 0.5, 0.5 and 10 the mean is 11/3, and the two
  half-minute items are below half the mean (11/6), so \<open>is_extreme\<close> flags all three
  items, not only the 10-minute one, and the score is not \<open>1 - 1/3\<close>.
\<close>

theorem pace_scenario_counterexample:
  "map duration_of (plan pace_scenario) = [1 / 2, 1 / 2, 10]
   \<and> filter (is_extreme (11 / 3)) [1 / 2, 1 / 2, 10] \<noteq> [10]
   \<and> evaluate_pace pace_scenario \<noteq> Inr (1 - 1 / 3)"
  using pace_of_durations[OF pace_scenario_durations]
  by (simp add: pace_scenario_durations is_extreme_def)

text \<open>
  C3 as amended. For a plan whose three items have parsed durations 0.5, 0.5 and 10
  minutes, the mean is 11/3, every item is extreme (10 is more than twice the mean, 0.5 is
  less than half of it), and pace consistency is \<open>1 - 3/3 = 0\<close>.
\<close>

theorem pace_three_durations:
  "map duration_of (plan ev) = [1 / 2, 1 / 2, 10] \<Longrightarrow>
     sum_list (timed_durations ev) / real (length (timed_durations ev)) = 11 / 3
     \<and> filter (is_extreme (11 / 3)) (timed_durations ev) = timed_durations ev
     \<and> evaluate_pace ev = Inr 0"
  by (simp add: pace_of_durations timed_durations_def is_extreme_def)

theorem pace_three_durations_witness:
  "map duration_of (plan pace_scenario) = [1 / 2, 1 / 2, 10]
   \<and> evaluate_pace pace_scenario = Inr 0"
  using pace_three_durations[of pace_scenario] pace_scenario_durations
  by simp

section \<open>Missing keys\<close>










section \<open>Duration parsing: a long run of digits\<close>

















section \<open>Well-formed input\<close>














section \<open>Coverage of an empty source\<close>




section \<open>Transitions: the code against the specification's formula\<close>

text \<open>
  The formula in the specification's words. The leading clause of a text is the text up
  to its first sentence terminator; the sentence terminators are those the specification
  names for the clarity score, \<open>.\<close>, \<open>!\<close> and \<open>?\<close> and their CJK equivalents (U+3002,
  U+FF01, U+FF1F). A clause contains a phrase case-insensitively when the lower-cased
  phrase occurs in the lower-cased clause.
\<close>

definition sentence_terminators :: "nat list" where
  "sentence_terminators = [46, 33, 63, 0x3002, 0xFF01, 0xFF1F]"

definition leading_clause :: "ustr \<Rightarrow> ustr" where
  "leading_clause text = takeWhile (\<lambda>c. c \<notin> set sentence_terminators) text"

definition contains_ci :: "ustr \<Rightarrow> ustr \<Rightarrow> bool" where
  "contains_ci clause phrase \<longleftrightarrow> py_in (lower phrase) (lower clause)"

definition transitions_spec :: "ustr list \<Rightarrow> real" where
  "transitions_spec texts =
     (if length texts \<le> 1 then 1
      else real (length (filter (\<lambda>clause. list_ex (contains_ci clause) transition_phrases)
                           (map leading_clause (tl texts))))
           / real (length texts - 1))"

text \<open>
  A script of two items, \<open>'Hello.'\<close> and \<open>'Great! Next we go'\<close>: the first sentence of the
  second item is \<open>'Great!'\<close>, and the transition phrase \<open>'next'\<close> comes after it.
\<close>

definition exclamation_scenario :: evaluator where
  "exclamation_scenario =
     \<lparr>slides_content = ascii ''Intro Method'',
      plan = [],
      script = [\<lparr>s_slide = Some 1, s_text = Some (ascii ''Hello.'')\<rparr>,
                \<lparr>s_slide = Some 2, s_text = Some (ascii ''Great! Next we go'')\<rparr>]\<rparr>"

lemma exclamation_texts:
  "script_texts (script exclamation_scenario)
    = Inr [ascii ''Hello.'', ascii ''Great! Next we go'']"
  by (simp add: exclamation_scenario_def)

lemma exclamation_clause: "leading_clause (ascii ''Great! Next we go'') = ascii ''Great''"
  by (simp add: leading_clause_def sentence_terminators_def ascii_def)

lemma exclamation_first_sentence:
  "first_sentence_of (lower (ascii ''Great! Next we go'')) = ascii ''great! next we go''"
  by (simp add: first_sentence_of_def text_eval)

lemma exclamation_no_phrase: "\<not> list_ex (contains_ci (ascii ''Great'')) transition_phrases"
  by (simp add: contains_ci_def transition_phrases_def text_eval)

lemma exclamation_spec:
  "transitions_spec [ascii ''Hello.'', ascii ''Great! Next we go''] = 0"
  using exclamation_no_phrase by (simp add: transitions_spec_def exclamation_clause)

lemma exclamation_hit: "has_transition (ascii ''Great! Next we go'')"
proof -
  have "ascii ''next'' \<in> set transition_phrases"
    by (simp add: transition_phrases_def)
  moreover have "py_in (ascii ''next'') (lower (ascii ''great! next we go''))"
    by (simp add: text_eval)
  ultimately show ?thesis
    unfolding has_transition_def Let_def exclamation_first_sentence list_ex_iff by blast
qed

lemma exclamation_code: "evaluate_transitions exclamation_scenario = Inr 1"
proof -
  have "list_all (\<lambda>s. s_text s \<noteq> None) (tl (script exclamation_scenario))"
    by (simp add: exclamation_scenario_def)
  from transitions_value[OF this] exclamation_hit show ?thesis
    by (simp add: exclamation_scenario_def)
qed

text \<open>
  C4. The code does not compute the specification's formula. \<open>_evaluate_transitions\<close>
  cuts the text at the first full stop only (\<open>text.split('.')\<close>), so a text whose first
  sentence ends with another terminator is searched as a whole. On the script \<open>'Hello.'\<close>,
  \<open>'Great! Next we go'\<close> the leading clause of the second item is \<open>'Great'\<close>, which holds
  no transition phrase, and the formula gives \<open>0 / 1 = 0\<close>; the code takes the whole
  lower-cased text as the first sentence, finds \<open>'next'\<close> in it and returns 1.
\<close>

theorem transitions_cut_at_full_stop_only:
  "script_texts (script exclamation_scenario)
     = Inr [ascii ''Hello.'', ascii ''Great! Next we go'']
   \<and> leading_clause (ascii ''Great! Next we go'') = ascii ''Great''
   \<and> transitions_spec [ascii ''Hello.'', ascii ''Great! Next we go''] = 0
   \<and> first_sentence_of (lower (ascii ''Great! Next we go'')) = ascii ''great! next we go''
   \<and> has_transition (ascii ''Great! Next we go'')
   \<and> evaluate_transitions exclamation_scenario = Inr 1"
  using exclamation_texts exclamation_clause exclamation_spec exclamation_first_sentence
    exclamation_hit exclamation_code
  by simp

section \<open>Parse errors\<close>

definition is_object :: "json \<Rightarrow> bool" where
  "is_object v = (case v of JObj d \<Rightarrow> True | _ \<Rightarrow> False)"

definition has_script_array :: "json \<Rightarrow> bool" where
  "has_script_array v =
     (case v of
        JObj d \<Rightarrow> (case map_of d (ascii ''script'') of Some (JArr items) \<Rightarrow> True | _ \<Rightarrow> False)
      | _ \<Rightarrow> False)"

text \<open>
  A stand-in for \<open>json.loads\<close> that knows one document, the empty object \<open>{}\<close>, which
  \<open>json.loads\<close> parses to the empty dictionary.
\<close>

definition loads_empty_object :: "ustr \<Rightarrow> json option" where
  "loads_empty_object = [ascii ''{}'' \<mapsto> JObj []]"

definition fenced_empty_object :: ustr where
  "fenced_empty_object = ascii ''```json {} ```''"

lemma strip_fence_fenced_empty_object: "strip_fence fenced_empty_object = ascii ''{}''"
  by (simp add: strip_fence_def fenced_empty_object_def fence_json_def fence_def text_eval
      Let_def)

lemma loads_fenced_empty_object:
  "loads_empty_object (strip_fence fenced_empty_object) = Some (JObj [])"
  by (simp add: strip_fence_fenced_empty_object loads_empty_object_def)

lemma strip_fence_empty_array: "strip_fence (ascii ''[]'') = ascii ''[]''"
  by (simp add: strip_fence_def fence_json_def fence_def text_eval Let_def)

lemma typed_empty:
  "typed \<lparr>raw_slides = [], raw_plan = JArr [], raw_script = JArr []\<rparr> = Some empty_evaluator"
  by (simp add: typed_def empty_evaluator_def)

lemma init_fenced_empty_object:
  "SpeechEvaluator_init loads_empty_object [] fenced_empty_object
    = Inr \<lparr>raw_slides = [], raw_plan = JArr [], raw_script = JArr []\<rparr>"
  by (simp add: SpeechEvaluator_init_def loads_fenced_empty_object dict_get_def)

lemma run_fenced_empty_object:
  "run loads_empty_object [] fenced_empty_object = Inr empty_results"
  by (simp add: run_def init_fenced_empty_object typed_empty evaluate_all_empty)

lemma evaluate_all_not_parse_error: "evaluate_all ev \<noteq> Inl JSONDecodeError"
  using evaluate_all_cases[of ev] by auto

lemma init_parse_error:
  "SpeechEvaluator_init json_loads slides payload = Inl JSONDecodeError
    \<longleftrightarrow> json_loads (strip_fence payload) = None"
  by (auto simp: SpeechEvaluator_init_def split: option.splits json.splits)

lemma run_parse_error:
  "run json_loads slides payload = Inl JSONDecodeError
    \<longleftrightarrow> json_loads (strip_fence payload) = None"
proof (cases "SpeechEvaluator_init json_loads slides payload")
  case (Inl e)
  then show ?thesis
    using init_parse_error[of json_loads slides payload] by (simp add: run_def)
next
  case (Inr raw)
  then have "json_loads (strip_fence payload) \<noteq> None"
    using init_parse_error[of json_loads slides payload] by auto
  moreover have "run json_loads slides payload \<noteq> Inl JSONDecodeError"
    using Inr evaluate_all_not_parse_error by (simp add: run_def split: option.splits)
  ultimately show ?thesis
    by simp
qed

text \<open>
  C2 as stated fails in one direction: the payload \<open>{}\<close> inside a Markdown fence is valid
  JSON after the fence is stripped and has no \<open>script\<close> array, yet construction and
  evaluation raise no parse error: \<open>speech_data.get('script', [])\<close> takes the script to be
  empty and the evaluation returns a result.
\<close>

theorem missing_script_counterexample:
  "strip_fence fenced_empty_object = ascii ''{}''
   \<and> loads_empty_object (strip_fence fenced_empty_object) = Some (JObj [])
   \<and> \<not> has_script_array (JObj [])
   \<and> run loads_empty_object [] fenced_empty_object = Inr empty_results
   \<and> run loads_empty_object [] fenced_empty_object \<noteq> Inl JSONDecodeError"
  using strip_fence_fenced_empty_object loads_fenced_empty_object run_fenced_empty_object
  by (simp add: has_script_array_def)

text \<open>
  C2 as amended. Construction and evaluation fail with a parse error, and then produce
  no result at all, if and only if the payload is not valid JSON after a leading/trailing
  Markdown code fence is stripped. A payload that is a JSON object without \<open>script\<close> is
  not rejected: its script is the empty list (and likewise its plan). A payload that is
  valid JSON but not an object fails with \<open>AttributeError\<close>, which is not a parse error.
\<close>

theorem parse_error_iff_invalid_json:
  "(run json_loads slides payload = Inl JSONDecodeError
      \<longleftrightarrow> json_loads (strip_fence payload) = None)
   \<and> (SpeechEvaluator_init json_loads slides payload = Inl JSONDecodeError
      \<longleftrightarrow> json_loads (strip_fence payload) = None)
   \<and> (json_loads (strip_fence payload) = Some (JObj d) \<longrightarrow>
        SpeechEvaluator_init json_loads slides payload
          = Inr \<lparr>raw_slides = slides,
                 raw_plan = (case map_of d (ascii ''plan'') of None \<Rightarrow> JArr [] | Some v \<Rightarrow> v),
                 raw_script =
                   (case map_of d (ascii ''script'') of None \<Rightarrow> JArr [] | Some v \<Rightarrow> v)\<rparr>)
   \<and> (json_loads (strip_fence payload) = Some w \<and> \<not> is_object w \<longrightarrow>
        SpeechEvaluator_init json_loads slides payload = Inl AttributeError)"
proof (intro conjI impI)
  show "run json_loads slides payload = Inl JSONDecodeError
      \<longleftrightarrow> json_loads (strip_fence payload) = None"
    by (rule run_parse_error)
  show "SpeechEvaluator_init json_loads slides payload = Inl JSONDecodeError
      \<longleftrightarrow> json_loads (strip_fence payload) = None"
    by (rule init_parse_error)
next
  assume "json_loads (strip_fence payload) = Some (JObj d)"
  then show "SpeechEvaluator_init json_loads slides payload
      = Inr \<lparr>raw_slides = slides,
             raw_plan = (case map_of d (ascii ''plan'') of None \<Rightarrow> JArr [] | Some v \<Rightarrow> v),
             raw_script =
               (case map_of d (ascii ''script'') of None \<Rightarrow> JArr [] | Some v \<Rightarrow> v)\<rparr>"
    by (simp add: SpeechEvaluator_init_def dict_get_def)
next
  assume "json_loads (strip_fence payload) = Some w \<and> \<not> is_object w"
  then show "SpeechEvaluator_init json_loads slides payload = Inl AttributeError"
    by (cases w) (simp_all add: SpeechEvaluator_init_def is_object_def)
qed

theorem parse_error_iff_invalid_json_witness:
  "run Map.empty [] (ascii ''{'') = Inl JSONDecodeError
   \<and> loads_empty_object (strip_fence fenced_empty_object) = Some (JObj [])
   \<and> SpeechEvaluator_init loads_empty_object [] fenced_empty_object
       = Inr \<lparr>raw_slides = [], raw_plan = JArr [], raw_script = JArr []\<rparr>
   \<and> run loads_empty_object [] fenced_empty_object \<noteq> Inl JSONDecodeError
   \<and> SpeechEvaluator_init [ascii ''[]'' \<mapsto> JArr []] [] (ascii ''[]'') = Inl AttributeError"
  using parse_error_iff_invalid_json[of Map.empty "[]" "ascii ''{''"]
    parse_error_iff_invalid_json[of loads_empty_object "[]" fenced_empty_object "[]"]
    parse_error_iff_invalid_json[of "[ascii ''[]'' \<mapsto> JArr []]" "[]" "ascii ''[]''" _ "JArr []"]
    loads_fenced_empty_object
  by (simp add: is_object_def strip_fence_empty_array)

end
